theory Spec2Isabelle
  imports Complex_Main
begin

section \<open>The interactive canvas: data model\<close>

text \<open>
  The canvas component keeps its geometry in JavaScript numbers, which are IEEE 754
  binary64 values. A number is modelled as the \<open>real\<close> it denotes; values that
  have no real counterpart (NaN, the infinities of a division by zero) are outside the
  model, and the theorems say where a denominator has to be non-zero. The aspect-ratio
  preset and the stroke loop, where rounding decides what the program does, are
  modelled with the rounding of every operation (section \<open>Binary64 arithmetic\<close>);
  elsewhere the arithmetic of the source is read as exact arithmetic.
\<close>

type_synonym Point = "real \<times> real"

record Rect =
  rx :: real
  ry :: real
  width :: real
  height :: real

text \<open>The decoded image: only its natural size matters to the geometry.\<close>

record Image =
  naturalWidth :: nat
  naturalHeight :: nat

text \<open>
  The container element: \<open>clientWidth\<close>, \<open>clientHeight\<close> and the origin of
  \<open>getBoundingClientRect()\<close>.
\<close>

record Container =
  clientWidth :: real
  clientHeight :: real
  boundLeft :: real
  boundTop :: real

record MouseEvent =
  clientX :: real
  clientY :: real

definition HANDLE_SIZE :: real where
  "HANDLE_SIZE = 12"

section \<open>Binary64 arithmetic\<close>

text \<open>
  Rounding to the nearest integer, ties to the even one, and rounding of a real to the
  nearest binary64 value: a significand of 53 bits, ties to even. The exponent range is
  not bounded, so overflow and subnormal numbers are outside the model.
\<close>

definition roundTiesEven :: "real \<Rightarrow> int" where
  "roundTiesEven m =
     (let f = \<lfloor>m\<rfloor>
      in if m - of_int f < 1 / 2 then f
         else if m - of_int f > 1 / 2 then f + 1
         else if even f then f else f + 1)"

definition rnd :: "real \<Rightarrow> real" where
  "rnd x =
     (if x = 0 then 0
      else let e = \<lfloor>log 2 \<bar>x\<bar>\<rfloor> - 52
           in of_int (roundTiesEven (x / 2 powr of_int e)) * 2 powr of_int e)"

text \<open>The operators \<open>+\<close>, \<open>-\<close>, \<open>*\<close> and \<open>/\<close> on numbers.\<close>

definition jsAdd :: "real \<Rightarrow> real \<Rightarrow> real" where
  "jsAdd a b = rnd (a + b)"

definition jsSub :: "real \<Rightarrow> real \<Rightarrow> real" where
  "jsSub a b = rnd (a - b)"

definition jsMul :: "real \<Rightarrow> real \<Rightarrow> real" where
  "jsMul a b = rnd (a * b)"

definition jsDiv :: "real \<Rightarrow> real \<Rightarrow> real" where
  "jsDiv a b = rnd (a / b)"

text \<open>
  \<open>Math.hypot\<close>, \<open>Math.atan2\<close>, \<open>Math.cos\<close> and \<open>Math.sin\<close> are
  implementation-approximated: the language fixes their results only up to the accuracy
  the engine chooses. The engine's four functions are a parameter of the model.
\<close>

record MathLib =
  mathHypot :: "real \<Rightarrow> real \<Rightarrow> real"
  mathAtan2 :: "real \<Rightarrow> real \<Rightarrow> real"
  mathCos :: "real \<Rightarrow> real"
  mathSin :: "real \<Rightarrow> real"

section \<open>Aspect fit\<close>

text \<open>
  \<open>fitImageToContainer\<close>; \<open>None\<close> is \<open>containerRef.current\<close> being null.
\<close>

definition fitImageToContainer :: "Container option \<Rightarrow> Image \<Rightarrow> Rect" where
  "fitImageToContainer cont img =
     (case cont of
        None \<Rightarrow> \<lparr>rx = 0, ry = 0, width = 0, height = 0\<rparr>
      | Some c \<Rightarrow>
          let containerWidth = clientWidth c;
              containerHeight = clientHeight c;
              imageRatio = real (naturalWidth img) / real (naturalHeight img);
              fitWidth0 = containerWidth;
              fitHeight0 = containerWidth / imageRatio;
              fitHeight = (if fitHeight0 > containerHeight then containerHeight else fitHeight0);
              fitWidth = (if fitHeight0 > containerHeight then containerHeight * imageRatio
                          else fitWidth0);
              fitX = (containerWidth - fitWidth) / 2;
              fitY = (containerHeight - fitHeight) / 2
          in \<lparr>rx = fitX, ry = fitY, width = fitWidth, height = fitHeight\<rparr>)"

section \<open>The drag-handle controller\<close>

text \<open>\<open>String.prototype.includes\<close> with a one-character argument.\<close>

definition includesChar :: "string \<Rightarrow> char \<Rightarrow> bool" where
  "includesChar s c = (c \<in> set s)"

text \<open>
  The updater that \<open>handleMouseMove\<close> passes to \<open>setCanvasRect\<close>: \<open>h\<close> is the
  handle being dragged, \<open>(x, y)\<close> the pointer relative to the container, \<open>prev\<close> the
  rectangle before the update. The four statements of the source run in order.
\<close>

definition dragRect :: "string \<Rightarrow> real \<Rightarrow> real \<Rightarrow> Rect \<Rightarrow> Rect" where
  "dragRect h x y prev =
     (let newX0 = rx prev; newY0 = ry prev; newW0 = width prev; newH0 = height prev;
          newW1 = (if includesChar h CHR ''r'' then x - newX0 else newW0);
          newW = (if includesChar h CHR ''l'' then newW1 + (newX0 - x) else newW1);
          newX = (if includesChar h CHR ''l'' then x else newX0);
          newH1 = (if includesChar h CHR ''b'' then y - newY0 else newH0);
          newH = (if includesChar h CHR ''t'' then newH1 + (newY0 - y) else newH1);
          newY = (if includesChar h CHR ''t'' then y else newY0)
      in \<lparr>rx = newX, ry = newY,
          width = max newW (HANDLE_SIZE * 2), height = max newH (HANDLE_SIZE * 2)\<rparr>)"

definition handles :: "string list" where
  "handles = [''t'', ''b'', ''l'', ''r'', ''tl'', ''tr'', ''bl'', ''br'']"

section \<open>The canvas component\<close>

datatype EditTool =
  inpainting | background | relighting | expand | upscale | textRemove | skyReplace | resize

text \<open>
  The properties of \<open>ImageCanvasProps\<close> that the component reads (it never reads
  \<open>brushColor\<close>).
\<close>

record Props =
  src :: string
  brushSize :: real
  brushOpacity :: real
  brushHardness :: real
  activeTool :: "EditTool option"

text \<open>
  One call of \<open>drawSoftCircle\<close> leaves one stamp on the mask canvas: a filled circle
  whose fill style is a radial gradient from radius 0 to \<open>radius\<close> around the centre.
  A colour stop is kept as (offset, alpha): every stop has the colour rgb(255, 0, 255).
\<close>

record Stamp =
  centerX :: real
  centerY :: real
  radius :: real
  colorStops :: "(real \<times> real) list"

text \<open>
  The bitmap of the mask canvas is kept as the stamps painted since it was last cleared,
  oldest first: the empty list is the fully transparent bitmap.
\<close>

type_synonym Bitmap = "Stamp list"

datatype error =
  ImageNotLoaded | NoCanvasContext | IndexSizeError | NullCanvasRef | ServiceFailure

record CanvasState =
  container :: "Container option"
  imageCanvas :: bool
  maskCanvas :: "Bitmap option"
  context2d :: bool
  imageEl :: "Image option"
  isDrawing :: bool
  lastPoint :: "Point option"
  mousePos :: Point
  isDragging :: "string option"
  canvasRect :: Rect
  imageDrawRect :: Rect

text \<open>
  \<open>container\<close>, \<open>imageCanvas\<close> and \<open>maskCanvas\<close> are the three refs
  (\<open>None\<close> and \<open>False\<close>: the ref is null); \<open>context2d\<close> says whether
  \<open>getContext('2d')\<close> returns a context. \<open>maskContext\<close> is
  \<open>maskCanvasRef.current?.getContext('2d')\<close>.
\<close>

definition maskContext :: "CanvasState \<Rightarrow> Bitmap option" where
  "maskContext s = (case maskCanvas s of
                      None \<Rightarrow> None
                    | Some m \<Rightarrow> if context2d s then Some m else None)"

definition isExpandable :: "Props \<Rightarrow> bool" where
  "isExpandable p = (activeTool p = Some expand \<or> activeTool p = Some resize)"

definition isPaintable :: "Props \<Rightarrow> bool" where
  "isPaintable p = (activeTool p = Some inpainting)"

text \<open>
  \<open>redrawCanvas\<close>: assigning \<open>width\<close> and \<open>height\<close> of a canvas element
  resets its bitmap, so the mask canvas comes out empty.
\<close>

definition redrawCanvas :: "CanvasState \<Rightarrow> CanvasState" where
  "redrawCanvas s =
     (if container s = None \<or> \<not> imageCanvas s \<or> maskCanvas s = None then s
      else s\<lparr>maskCanvas := Some []\<rparr>)"

text \<open>
  The \<open>onload\<close> handler of the image created for \<open>src\<close>, followed by the effect
  that the change of \<open>imageEl\<close> and \<open>imageDrawRect\<close> triggers.
\<close>

definition onload :: "Image \<Rightarrow> CanvasState \<Rightarrow> CanvasState" where
  "onload img s =
     (let initialRect = fitImageToContainer (container s) img
      in redrawCanvas (s\<lparr>imageEl := Some img, imageDrawRect := initialRect,
                          canvasRect := initialRect\<rparr>))"

definition getCoords :: "CanvasState \<Rightarrow> MouseEvent \<Rightarrow> Point" where
  "getCoords s e = (case container s of
                      None \<Rightarrow> (0, 0)
                    | Some c \<Rightarrow> (clientX e - boundLeft c, clientY e - boundTop c))"

subsection \<open>The brush\<close>

text \<open>The offset of the second colour stop: \<open>Math.max(0, brushHardness)\<close>.\<close>

definition hardnessStop :: "Props \<Rightarrow> real" where
  "hardnessStop p = max 0 (brushHardness p)"

text \<open>
  \<open>drawSoftCircle\<close> on the bitmap \<open>context\<close>. The canvas API throws an
  \<open>IndexSizeError\<close> for a negative radius (\<open>createRadialGradient\<close>) and for a
  colour stop offset above 1 (\<open>addColorStop\<close>).
\<close>

definition drawSoftCircle :: "Props \<Rightarrow> Bitmap \<Rightarrow> real \<Rightarrow> real \<Rightarrow> error + Bitmap" where
  "drawSoftCircle p context x y =
     (let radius = brushSize p / 2;
          solidColor = brushOpacity p;
          transparentColor = 0
      in if radius < 0 then Inl IndexSizeError
         else if hardnessStop p > 1 then Inl IndexSizeError
         else Inr (context @
                [\<lparr>centerX = x, centerY = y, radius = radius,
                  colorStops = [(0, solidColor), (hardnessStop p, solidColor),
                                (1, transparentColor)]\<rparr>]))"

definition startDrawing :: "Props \<Rightarrow> MouseEvent \<Rightarrow> CanvasState \<Rightarrow> error + CanvasState" where
  "startDrawing p e s =
     (if \<not> isPaintable p then Inr s
      else let pos = getCoords s e;
               s1 = s\<lparr>isDrawing := True, lastPoint := Some pos\<rparr>
           in case maskContext s of
                None \<Rightarrow> Inr s1
              | Some context \<Rightarrow>
                  (case drawSoftCircle p context (fst pos) (snd pos) of
                     Inl err \<Rightarrow> Inl err
                   | Inr context' \<Rightarrow> Inr (s1\<lparr>maskCanvas := Some context'\<rparr>)))"

definition stopDrawing :: "Props \<Rightarrow> CanvasState \<Rightarrow> CanvasState" where
  "stopDrawing p s =
     (if \<not> isPaintable p then s else s\<lparr>isDrawing := False, lastPoint := None\<rparr>)"

text \<open>
  The \<open>for\<close> loop of \<open>draw\<close>: \<open>i\<close> runs from its start value in steps of
  \<open>Math.max(1, brushSize / 10)\<close> while it is below \<open>dist\<close> (here \<open>distance\<close>);
  \<open>i += step\<close> rounds. The loop does not end when \<open>i\<close> is so large that adding
  the step no longer changes it: the result \<open>None\<close> is the loop running forever.
\<close>

partial_function (option) draw_loop ::
  "MathLib \<Rightarrow> Props \<Rightarrow> Point \<Rightarrow> real \<Rightarrow> real \<Rightarrow> real \<Rightarrow> Bitmap \<Rightarrow> (error + Bitmap) option" where
  "draw_loop lib p lastP angle distance i context =
     (if i < distance then
        (case drawSoftCircle p context
                (jsAdd (fst lastP) (jsMul (mathCos lib angle) i))
                (jsAdd (snd lastP) (jsMul (mathSin lib angle) i)) of
           Inl err \<Rightarrow> Some (Inl err)
         | Inr context' \<Rightarrow>
             draw_loop lib p lastP angle distance
               (jsAdd i (max 1 (jsDiv (brushSize p) 10))) context')
      else Some (Inr context))"

text \<open>\<open>draw\<close>; \<open>None\<close> is the handler not returning.\<close>

definition draw ::
  "MathLib \<Rightarrow> Props \<Rightarrow> MouseEvent \<Rightarrow> CanvasState \<Rightarrow> (error + CanvasState) option" where
  "draw lib p e s =
     (let currentPos = getCoords s e;
          s1 = s\<lparr>mousePos := currentPos\<rparr>
      in if \<not> isDrawing s \<or> \<not> isPaintable p then Some (Inr s1)
         else case lastPoint s of
                None \<Rightarrow> Some (Inr s1)
              | Some lastP \<Rightarrow>
                  (case maskContext s of
                     None \<Rightarrow> Some (Inr (s1\<lparr>lastPoint := Some currentPos\<rparr>))
                   | Some context \<Rightarrow>
                       let distance = mathHypot lib (jsSub (fst currentPos) (fst lastP))
                                                    (jsSub (snd currentPos) (snd lastP));
                           angle = mathAtan2 lib (jsSub (snd currentPos) (snd lastP))
                                                 (jsSub (fst currentPos) (fst lastP))
                       in case draw_loop lib p lastP angle distance 0 context of
                            None \<Rightarrow> None
                          | Some (Inl err) \<Rightarrow> Some (Inl err)
                          | Some (Inr context') \<Rightarrow>
                              (case drawSoftCircle p context' (fst currentPos) (snd currentPos) of
                                 Inl err \<Rightarrow> Some (Inl err)
                               | Inr context'' \<Rightarrow>
                                   Some (Inr (s1\<lparr>maskCanvas := Some context'',
                                                 lastPoint := Some currentPos\<rparr>)))))"

subsection \<open>Dragging a handle\<close>

definition handleMouseDownOnHandle :: "Props \<Rightarrow> string \<Rightarrow> CanvasState \<Rightarrow> CanvasState" where
  "handleMouseDownOnHandle p handle s =
     (if \<not> isExpandable p then s else s\<lparr>isDragging := Some handle\<rparr>)"

definition handleMouseUp :: "CanvasState \<Rightarrow> CanvasState" where
  "handleMouseUp s = s\<lparr>isDragging := None\<rparr>"

text \<open>\<open>!isDragging\<close> holds for \<open>null\<close> and for the empty string.\<close>

definition handleMouseMove :: "MouseEvent \<Rightarrow> CanvasState \<Rightarrow> CanvasState" where
  "handleMouseMove e s =
     (case isDragging s of
        None \<Rightarrow> s
      | Some h \<Rightarrow>
          if h = [] then s
          else case container s of
                 None \<Rightarrow> s
               | Some c \<Rightarrow>
                   let x = clientX e - boundLeft c;
                       y = clientY e - boundTop c
                   in s\<lparr>canvasRect := dragRect h x y (canvasRect s)\<rparr>)"

text \<open>
  The pointer events of a drag, and a sequence of them applied in order. The listeners
  for move and release are on the window, so they arrive whatever the pointer is over.
\<close>

datatype DragEvent = MouseDownOnHandle string | MouseMove MouseEvent | MouseUp

fun dragStep :: "Props \<Rightarrow> CanvasState \<Rightarrow> DragEvent \<Rightarrow> CanvasState" where
  "dragStep p s (MouseDownOnHandle handle) = handleMouseDownOnHandle p handle s"
| "dragStep p s (MouseMove e) = handleMouseMove e s"
| "dragStep p s MouseUp = handleMouseUp s"

definition dragEvents :: "Props \<Rightarrow> DragEvent list \<Rightarrow> CanvasState \<Rightarrow> CanvasState" where
  "dragEvents p evs s = foldl (dragStep p) s evs"

definition minSize :: "Rect \<Rightarrow> bool" where
  "minSize r = (width r \<ge> 2 * HANDLE_SIZE \<and> height r \<ge> 2 * HANDLE_SIZE)"

subsection \<open>The exports\<close>

text \<open>
  What an export draws on its fresh canvas, in order. \<open>DrawImage\<close> is
  \<open>drawImage(imageEl, dx, dy)\<close>, \<open>DrawImageSized\<close> is
  \<open>drawImage(imageEl, dx, dy, dw, dh)\<close> and \<open>DrawMask\<close> is
  \<open>drawImage(maskCanvas, dx, dy)\<close>.
\<close>

datatype DrawOp =
  DrawImage Image real real
| DrawImageSized Image real real real real
| DrawMask Bitmap real real
| Save
| Scale real real
| Restore

text \<open>
  The canvas an export produces: the values assigned to its \<open>width\<close> and
  \<open>height\<close> and the drawing operations. \<open>toDataURL\<close> encodes exactly this,
  so the payload of an export is kept as the canvas itself.
\<close>

record OutputCanvas =
  canvasWidth :: real
  canvasHeight :: real
  ops :: "DrawOp list"

record Export =
  payload :: OutputCanvas
  mimeType :: string

definition startsWith :: "string \<Rightarrow> string \<Rightarrow> bool" where
  "startsWith s pre = (take (length pre) s = pre)"

definition getCompositeImageWithMask :: "Props \<Rightarrow> CanvasState \<Rightarrow> error + Export" where
  "getCompositeImageWithMask p s =
     (case imageEl s of
        None \<Rightarrow> Inl ImageNotLoaded
      | Some img \<Rightarrow>
          let w = real (naturalWidth img);
              h = real (naturalHeight img)
          in if \<not> context2d s then Inl NoCanvasContext
             else
               let maskOps =
                     (case maskCanvas s of
                        None \<Rightarrow> []
                      | Some maskBitmap \<Rightarrow>
                          if imageCanvas s then
                            (let scaleX = w / width (imageDrawRect s);
                                 scaleY = h / height (imageDrawRect s)
                             in [Save, Scale scaleX scaleY,
                                 DrawMask maskBitmap (- rx (imageDrawRect s)) (- ry (imageDrawRect s)),
                                 Restore])
                          else []);
                   mime = (if startsWith (src p) ''data:image/jpeg'' then ''image/jpeg''
                           else ''image/png'')
               in Inr \<lparr>payload = \<lparr>canvasWidth = w, canvasHeight = h,
                                     ops = DrawImage img 0 0 # maskOps\<rparr>,
                        mimeType = mime\<rparr>)"

definition getFinalExpandedImage :: "CanvasState \<Rightarrow> error + Export" where
  "getFinalExpandedImage s =
     (case imageEl s of
        None \<Rightarrow> Inl ImageNotLoaded
      | Some img \<Rightarrow>
          if \<not> context2d s then Inl NoCanvasContext
          else
            let drawX = rx (imageDrawRect s) - rx (canvasRect s);
                drawY = ry (imageDrawRect s) - ry (canvasRect s);
                mime = ''image/png''
            in Inr \<lparr>payload = \<lparr>canvasWidth = width (canvasRect s),
                                  canvasHeight = height (canvasRect s),
                                  ops = [DrawImageSized img drawX drawY
                                           (width (imageDrawRect s)) (height (imageDrawRect s))]\<rparr>,
                     mimeType = mime\<rparr>)"

subsection \<open>Presets, explicit size, clearing and reset\<close>

text \<open>\<open>String.prototype.split\<close> with a one-character separator.\<close>

fun splitStr :: "char \<Rightarrow> string \<Rightarrow> string list" where
  "splitStr sep [] = [[]]"
| "splitStr sep (c # cs) =
     (if c = sep then [] # splitStr sep cs
      else (case splitStr sep cs of
              [] \<Rightarrow> [[c]]
            | w # ws \<Rightarrow> (c # w) # ws))"

definition isDigit :: "char \<Rightarrow> bool" where
  "isDigit c = (48 \<le> (of_char c :: nat) \<and> (of_char c :: nat) \<le> 57)"

text \<open>
  \<open>Number\<close> on a non-empty string of decimal digits. Every other string gives
  \<open>None\<close>: its value is NaN, or it uses a literal syntax that this model leaves out.
\<close>

definition Number :: "string \<Rightarrow> real option" where
  "Number str =
     (if str \<noteq> [] \<and> list_all isDigit str
      then Some (real (foldl (\<lambda>n c. 10 * n + (of_char c - 48)) 0 str))
      else None)"

text \<open>
  \<open>setAspectRatio\<close>, every operation rounded. The result is \<open>None\<close> where
  \<open>w\<close> or \<open>h\<close> is not a number of the model (see \<open>Number\<close>; fewer than two
  parts leave \<open>h\<close> undefined).
\<close>

definition setAspectRatio :: "string \<Rightarrow> CanvasState \<Rightarrow> CanvasState option" where
  "setAspectRatio ratioStr s =
     (case imageEl s of
        None \<Rightarrow> Some s
      | Some img \<Rightarrow>
          (case map Number (splitStr CHR '':'' ratioStr) of
             Some w # Some h # rest \<Rightarrow>
               let targetRatio = jsDiv w h;
                   imgRatio = jsDiv (width (imageDrawRect s)) (height (imageDrawRect s));
                   newH = (if targetRatio > imgRatio then height (imageDrawRect s)
                           else jsDiv (width (imageDrawRect s)) targetRatio);
                   newW = (if targetRatio > imgRatio
                           then jsMul (height (imageDrawRect s)) targetRatio
                           else width (imageDrawRect s));
                   newX = jsSub (rx (imageDrawRect s))
                                (jsDiv (jsSub newW (width (imageDrawRect s))) 2);
                   newY = jsSub (ry (imageDrawRect s))
                                (jsDiv (jsSub newH (height (imageDrawRect s))) 2)
               in Some (s\<lparr>canvasRect := \<lparr>rx = newX, ry = newY, width = newW, height = newH\<rparr>\<rparr>)
           | _ \<Rightarrow> None))"

definition setExplicitCanvasSize :: "real \<Rightarrow> real \<Rightarrow> CanvasState \<Rightarrow> CanvasState" where
  "setExplicitCanvasSize w h s =
     (case container s of
        None \<Rightarrow> s
      | Some c \<Rightarrow>
          let newX = (clientWidth c - w) / 2;
              newY = (clientHeight c - h) / 2
          in s\<lparr>canvasRect := \<lparr>rx = newX, ry = newY, width = w, height = h\<rparr>\<rparr>)"

definition clearMask :: "CanvasState \<Rightarrow> CanvasState" where
  "clearMask s =
     (case maskCanvas s of
        None \<Rightarrow> s
      | Some canvas \<Rightarrow> if context2d s then s\<lparr>maskCanvas := Some []\<rparr> else s)"

text \<open>
  \<open>reset\<close>, followed by the effect that the new \<open>imageDrawRect\<close> triggers
  (\<open>redrawCanvas\<close>, which empties the mask canvas).
\<close>

definition reset :: "CanvasState \<Rightarrow> CanvasState" where
  "reset s =
     (case imageEl s of
        None \<Rightarrow> s
      | Some img \<Rightarrow>
          let initialRect = fitImageToContainer (container s) img
          in redrawCanvas (s\<lparr>imageDrawRect := initialRect, canvasRect := initialRect\<rparr>))"

subsection \<open>What a stamp looks like\<close>

text \<open>
  The alpha of a gradient at offset \<open>t\<close>, as the canvas standard defines it for
  colour stops listed by increasing offset: the first stop's colour before the first
  stop, the last stop's colour from the last stop on, linear interpolation between two
  neighbours. All stops of a stamp have the same RGB, so only alpha varies.
\<close>

fun gradientAlpha :: "(real \<times> real) list \<Rightarrow> real \<Rightarrow> real" where
  "gradientAlpha [] t = 0"
| "gradientAlpha [(o1, a1)] t = a1"
| "gradientAlpha ((o1, a1) # (o2, a2) # rest) t =
     (if t < o1 then a1
      else if t < o2 then a1 + (a2 - a1) * (t - o1) / (o2 - o1)
      else gradientAlpha ((o2, a2) # rest) t)"

text \<open>
  The alpha that a stamp puts on a pixel at distance \<open>d\<close> from its centre: the
  gradient runs from radius 0 to \<open>radius\<close>, the filled arc ends at \<open>radius\<close>,
  and a gradient whose two circles coincide paints nothing.
\<close>

definition stampAlpha :: "Stamp \<Rightarrow> real \<Rightarrow> real" where
  "stampAlpha st d =
     (if 0 < radius st \<and> 0 \<le> d \<and> d \<le> radius st
      then gradientAlpha (colorStops st) (d / radius st)
      else 0)"

section \<open>The edit pane\<close>

text \<open>
  The prompt is typed text: a string of UTF-16 code units, kept as numbers. \<open>str\<close>
  gives the code units of an ASCII literal.
\<close>

type_synonym JSString = "nat list"

definition str :: "string \<Rightarrow> JSString" where
  "str cs = map of_char cs"

text \<open>
  The state of the host component that the modelled handlers read or write. A primed
  name is the pane's state variable of that name; \<open>canvasRef\<close> is
  \<open>canvasRef.current\<close>, the mounted canvas component with its own state.
\<close>

record EditPaneState =
  image' :: "string option"
  originalImage :: "string option"
  prompt :: JSString
  brushSize' :: real
  brushOpacity' :: real
  brushHardness' :: real
  resizeWidth :: real
  resizeHeight :: real
  activeTool' :: "EditTool option"
  isLoading :: bool
  error' :: "string option"
  loadingMessage :: string
  canvasRef :: "CanvasState option"

text \<open>The props the pane renders the canvas with (it is rendered only with an image).\<close>

definition canvasProps :: "EditPaneState \<Rightarrow> Props" where
  "canvasProps s =
     \<lparr>src = (case image' s of None \<Rightarrow> [] | Some i \<Rightarrow> i),
      brushSize = brushSize' s,
      brushOpacity = brushOpacity' s,
      brushHardness = brushHardness' s,
      activeTool = (if activeTool' s = Some inpainting \<or> activeTool' s = Some expand
                       \<or> activeTool' s = Some resize
                    then activeTool' s else None)\<rparr>"

definition handleToggleTool :: "EditTool \<Rightarrow> EditPaneState \<Rightarrow> EditPaneState" where
  "handleToggleTool tool s =
     s\<lparr>activeTool' := (if activeTool' s = Some tool then None else Some tool)\<rparr>"

text \<open>
  \<open>String.prototype.trim\<close> removes white space and line terminators from both
  ends: the code units of \<open>WhiteSpace\<close> (tab, vertical tab, form feed, space,
  no-break space, the byte order mark and the Unicode space separators) and of
  \<open>LineTerminator\<close> (line feed, carriage return, U+2028 and U+2029).
\<close>

definition isWhiteSpace :: "nat \<Rightarrow> bool" where
  "isWhiteSpace c =
     (c \<in> set [0x09, 0x0A, 0x0B, 0x0C, 0x0D, 0x20, 0xA0, 0x1680, 0x2028, 0x2029, 0x202F,
                0x205F, 0x3000, 0xFEFF]
      \<or> (0x2000 \<le> c \<and> c \<le> 0x200A))"

definition trim :: "JSString \<Rightarrow> JSString" where
  "trim cs = rev (dropWhile isWhiteSpace (rev (dropWhile isWhiteSpace cs)))"

text \<open>\<open>toLowerCase\<close> and \<open>replace\<close> on the ASCII messages of the pane.\<close>

definition toLowerCase :: "string \<Rightarrow> string" where
  "toLowerCase cs =
     map (\<lambda>c. if 65 \<le> (of_char c :: nat) \<and> (of_char c :: nat) \<le> 90
              then char_of (of_char c + 32 :: nat) else c) cs"

fun replaceFirst :: "string \<Rightarrow> string \<Rightarrow> string \<Rightarrow> string" where
  "replaceFirst pat rep [] = (if pat = [] then rep else [])"
| "replaceFirst pat rep (c # cs) =
     (if startsWith (c # cs) pat then rep @ drop (length pat) (c # cs)
      else c # replaceFirst pat rep cs)"

text \<open>
  \<open>executeEditAction\<close>, from the call to the state after \<open>finally\<close>. The
  action runs on the state it finds, returns the state it leaves and either its result
  or the error it threw. \<open>!image\<close> holds for \<open>null\<close> and for the empty string.
\<close>

definition executeEditAction ::
  "(EditPaneState \<Rightarrow> EditPaneState \<times> (error + string)) \<Rightarrow> string \<Rightarrow> EditPaneState
     \<Rightarrow> EditPaneState" where
  "executeEditAction action message s =
     (if image' s = None \<or> image' s = Some [] then s
      else
        let s1 = s\<lparr>isLoading := True, loadingMessage := message, error' := None\<rparr>;
            (s2, res) = action s1;
            s3 = (case res of
                    Inr result \<Rightarrow> s2\<lparr>image' := Some result\<rparr>
                  | Inl err \<Rightarrow>
                      s2\<lparr>error' := Some (''Failed to ''
                               @ replaceFirst ''...'' [] (toLowerCase message)
                               @ ''. Please try again.'')\<rparr>)
        in s3\<lparr>isLoading := False\<rparr>)"

definition editPrompt :: "JSString \<Rightarrow> JSString" where
  "editPrompt pr =
     str ''In the image provided, the area marked in magenta must be replaced with: ''
     @ [0x22] @ pr @ [0x22]
     @ str (''. The replacement must be photorealistic and seamlessly blended. ''
     @ ''CRUCIAL: The new content must perfectly match the ambient lighting, shadows, ''
     @ ''color grading, grain, and texture of the surrounding original image to create ''
     @ ''a completely realistic and undetectable edit. Do not leave any magenta artifacts.'')"

definition expandPrompt :: string where
  "expandPrompt =
     ''This is an image that has been expanded. The transparent area needs to be filled. ''
     @ ''Please complete the image by realistically extending the existing scene into the ''
     @ ''transparent region. Ensure the transition is seamless and the style is consistent ''
     @ ''with the original image.''"

text \<open>
  \<open>handleEdit\<close> and \<open>handleExpand\<close>. The remote service is the parameter
  \<open>editImage\<close>: given the payload, the MIME type and the prompt it answers with a
  new image or fails.
\<close>

definition handleEdit ::
  "(OutputCanvas \<Rightarrow> string \<Rightarrow> JSString \<Rightarrow> error + string) \<Rightarrow> EditPaneState \<Rightarrow> EditPaneState" where
  "handleEdit editImage s =
     (if trim (prompt s) = [] \<or> canvasRef s = None then s
      else executeEditAction
             (\<lambda>s1. case canvasRef s1 of
                     None \<Rightarrow> (s1, Inl NullCanvasRef)
                   | Some c \<Rightarrow>
                       (case getCompositeImageWithMask (canvasProps s1) c of
                          Inl err \<Rightarrow> (s1, Inl err)
                        | Inr ex \<Rightarrow>
                            (case editImage (payload ex) (mimeType ex) (editPrompt (prompt s1)) of
                               Inl err \<Rightarrow> (s1, Inl err)
                             | Inr result \<Rightarrow>
                                 (s1\<lparr>canvasRef := Some (clearMask c), prompt := []\<rparr>,
                                  Inr result))))
             ''Applying edits...'' s)"

definition handleExpand ::
  "(OutputCanvas \<Rightarrow> string \<Rightarrow> JSString \<Rightarrow> error + string) \<Rightarrow> EditPaneState \<Rightarrow> EditPaneState" where
  "handleExpand editImage s =
     (if canvasRef s = None then s
      else executeEditAction
             (\<lambda>s1. case canvasRef s1 of
                     None \<Rightarrow> (s1, Inl NullCanvasRef)
                   | Some c \<Rightarrow>
                       (case getFinalExpandedImage c of
                          Inl err \<Rightarrow> (s1, Inl err)
                        | Inr ex \<Rightarrow> (s1, editImage (payload ex) (mimeType ex) (str expandPrompt))))
             ''Expanding image...'' s)"

definition handleSetCanvasSize :: "EditPaneState \<Rightarrow> EditPaneState" where
  "handleSetCanvasSize s =
     (if resizeWidth s > 0 \<and> resizeHeight s > 0 then
        (case canvasRef s of
           None \<Rightarrow> s
         | Some c \<Rightarrow>
             s\<lparr>canvasRef := Some (setExplicitCanvasSize (resizeWidth s) (resizeHeight s) c)\<rparr>)
      else s)"

section \<open>Notions used to state the properties\<close>

text \<open>
  The stamp one successful \<open>drawSoftCircle\<close> at \<open>(x, y)\<close> appends, the brush
  settings under which the canvas API accepts it, and the step of the stroke loop.
\<close>

definition stampOf :: "Props \<Rightarrow> real \<Rightarrow> real \<Rightarrow> Stamp" where
  "stampOf p x y =
     \<lparr>centerX = x, centerY = y, radius = brushSize p / 2,
      colorStops = [(0, brushOpacity p), (hardnessStop p, brushOpacity p), (1, 0)]\<rparr>"

definition brushOk :: "Props \<Rightarrow> bool" where
  "brushOk p = (0 \<le> brushSize p \<and> brushHardness p \<le> 1)"

definition stepSize :: "Props \<Rightarrow> real" where
  "stepSize p = max 1 (jsDiv (brushSize p) 10)"

text \<open>
  The stamp the stroke loop paints at the value \<open>t\<close> of its counter, and the values
  the counter takes from \<open>i\<close> on: each is below \<open>d\<close>, the next is the rounded
  sum of it and the step, and the one after the last is not below \<open>d\<close>.
\<close>

definition stampAt :: "MathLib \<Rightarrow> Props \<Rightarrow> Point \<Rightarrow> real \<Rightarrow> real \<Rightarrow> Stamp" where
  "stampAt lib p lastP angle t =
     stampOf p (jsAdd (fst lastP) (jsMul (mathCos lib angle) t))
               (jsAdd (snd lastP) (jsMul (mathSin lib angle) t))"

fun accumulates :: "real \<Rightarrow> real \<Rightarrow> real \<Rightarrow> real list \<Rightarrow> bool" where
  "accumulates i st d [] = (\<not> i < d)"
| "accumulates i st d (t # ts) = (i < d \<and> t = i \<and> accumulates (jsAdd i st) st d ts)"

definition centre :: "Stamp \<Rightarrow> Point" where
  "centre st = (centerX st, centerY st)"


text \<open>The first rectangle contains the second.\<close>

definition containsRect :: "Rect \<Rightarrow> Rect \<Rightarrow> bool" where
  "containsRect outer inner =
     (rx outer \<le> rx inner \<and> ry outer \<le> ry inner
      \<and> rx inner + width inner \<le> rx outer + width outer
      \<and> ry inner + height inner \<le> ry outer + height outer)"


text \<open>The number of stamps on the mask canvas.\<close>

definition maskStamps :: "CanvasState \<Rightarrow> nat" where
  "maskStamps s = (case maskCanvas s of None \<Rightarrow> 0 | Some m \<Rightarrow> length m)"

section \<open>Concrete scenarios\<close>

text \<open>The values that the scenarios of the specification are run on.\<close>

definition scenarioRect :: Rect where
  "scenarioRect = \<lparr>rx = 0, ry = 0, width = 100, height = 100\<rparr>"

definition scenarioContainer :: Container where
  "scenarioContainer = \<lparr>clientWidth = 400, clientHeight = 400, boundLeft = 0, boundTop = 0\<rparr>"

definition scenarioImage :: Image where
  "scenarioImage = \<lparr>naturalWidth = 800, naturalHeight = 600\<rparr>"

text \<open>The component as it is mounted, before any image has loaded.\<close>

definition mountedCanvas :: CanvasState where
  "mountedCanvas =
     \<lparr>container = Some scenarioContainer, imageCanvas = True, maskCanvas = Some [],
      context2d = True, imageEl = None, isDrawing = False, lastPoint = None,
      mousePos = (- 100, - 100), isDragging = None,
      canvasRect = \<lparr>rx = 0, ry = 0, width = 0, height = 0\<rparr>,
      imageDrawRect = \<lparr>rx = 0, ry = 0, width = 0, height = 0\<rparr>\<rparr>"

definition loadedCanvas :: CanvasState where
  "loadedCanvas = onload scenarioImage mountedCanvas"

definition expandProps :: Props where
  "expandProps =
     \<lparr>src = ''data:image/png;base64,'', brushSize = 40, brushOpacity = 7 / 10,
      brushHardness = 1, activeTool = Some expand\<rparr>"

definition paintProps :: Props where
  "paintProps =
     \<lparr>src = ''data:image/jpeg;base64,'', brushSize = 40, brushOpacity = 7 / 10,
      brushHardness = 1, activeTool = Some inpainting\<rparr>"

text \<open>The loaded canvas after one press of the brush at (100, 100).\<close>

definition paintedCanvas :: CanvasState where
  "paintedCanvas =
     loadedCanvas\<lparr>isDrawing := True, lastPoint := Some (100, 100),
       maskCanvas := Some [\<lparr>centerX = 100, centerY = 100, radius = 20,
                             colorStops = [(0, 7 / 10), (1, 7 / 10), (1, 0)]\<rparr>]\<rparr>"

text \<open>A thin brush, and the painted canvas after a stroke of it to (106, 100).\<close>

definition thinProps :: Props where
  "thinProps =
     \<lparr>src = ''data:image/jpeg;base64,'', brushSize = 5, brushOpacity = 7 / 10,
      brushHardness = 1, activeTool = Some inpainting\<rparr>"

text \<open>A Math library whose four functions are correctly rounded.\<close>

definition exactMath :: MathLib where
  "exactMath =
     \<lparr>mathHypot = (\<lambda>a b. rnd (sqrt (a\<^sup>2 + b\<^sup>2))),
      mathAtan2 = (\<lambda>b a. rnd (Arg (Complex a b))),
      mathCos = (\<lambda>a. rnd (cos a)),
      mathSin = (\<lambda>a. rnd (sin a))\<rparr>"

definition strokedCanvas :: CanvasState where
  "strokedCanvas =
     paintedCanvas\<lparr>mousePos := (106, 100), lastPoint := Some (106, 100),
       maskCanvas := Some ([\<lparr>centerX = 100, centerY = 100, radius = 20,
                             colorStops = [(0, 7 / 10), (1, 7 / 10), (1, 0)]\<rparr>]
                           @ map (\<lambda>k. stampOf thinProps (100 + k) 100) [0, 1, 2, 3, 4, 5]
                           @ [stampOf thinProps 106 100])\<rparr>"

text \<open>A brush of hardness 0.\<close>

definition softProps :: Props where
  "softProps =
     \<lparr>src = ''data:image/jpeg;base64,'', brushSize = 40, brushOpacity = 7 / 10,
      brushHardness = 0, activeTool = Some inpainting\<rparr>"

text \<open>
  The pane with the painted canvas, the paint tool active and a prompt typed, and the
  same pane on the resize tool with 10 by 10 entered as the canvas size.
\<close>

definition paintPane :: EditPaneState where
  "paintPane =
     \<lparr>image' = Some ''data:image/jpeg;base64,'',
      originalImage = Some ''data:image/jpeg;base64,'',
      prompt = str ''a red ball'', brushSize' = 40, brushOpacity' = 7 / 10, brushHardness' = 1,
      resizeWidth = 800, resizeHeight = 600, activeTool' = Some inpainting,
      isLoading = False, error' = None, loadingMessage = [],
      canvasRef = Some paintedCanvas\<rparr>"

definition resizePane :: EditPaneState where
  "resizePane = paintPane\<lparr>activeTool' := Some resize, resizeWidth := 10, resizeHeight := 10\<rparr>"

text \<open>A remote service that answers every request with the same image.\<close>

definition answeringService :: "OutputCanvas \<Rightarrow> string \<Rightarrow> JSString \<Rightarrow> error + string" where
  "answeringService pl mime pr = Inr ''data:image/png;base64,AAAA''"


text \<open>
  The component with an 800 by 600 image in a container of 400 by 230 pixels.
  \<open>imageDrawRect\<close> and \<open>canvasRect\<close> are the rectangle that the statements of
  \<open>fitImageToContainer\<close> give when each operation rounds: \<open>imageRatio\<close> is
  \<open>800 / 600\<close>; \<open>fitHeight = 400 / imageRatio\<close> is above the container's 230, so
  \<open>fitHeight\<close> is 230 and \<open>fitWidth\<close> is \<open>230 * imageRatio\<close>; \<open>x\<close> is
  \<open>(400 - fitWidth) / 2\<close> and \<open>y\<close> is \<open>(230 - 230) / 2\<close>. In decimal notation the
  rectangle is x = 46.666666666666686, y = 0, width = 306.66666666666663, height = 230.
\<close>

definition fittedRect :: Rect where
  "fittedRect =
     \<lparr>rx = jsDiv (jsSub 400 (jsMul 230 (jsDiv 800 600))) 2,
      ry = jsDiv (jsSub 230 230) 2,
      width = jsMul 230 (jsDiv 800 600),
      height = 230\<rparr>"

definition fittedCanvas :: CanvasState where
  "fittedCanvas =
     mountedCanvas\<lparr>container :=
         Some \<lparr>clientWidth = 400, clientHeight = 230, boundLeft = 0, boundTop = 0\<rparr>,
       imageEl := Some scenarioImage, imageDrawRect := fittedRect, canvasRect := fittedRect\<rparr>"

section \<open>Helper lemmas: dragging\<close>

lemma dragRect_minSize: "minSize (dragRect h x y prev)"
  by (simp add: minSize_def dragRect_def Let_def HANDLE_SIZE_def split del: if_split)

lemma handleMouseMove_rect:
  "handleMouseMove e s = s \<or> minSize (canvasRect (handleMouseMove e s))"
  by (auto simp: handleMouseMove_def dragRect_minSize Let_def split: option.splits)

lemma dragStep_rect:
  "canvasRect (dragStep p s ev) = canvasRect s \<or> minSize (canvasRect (dragStep p s ev))"
  by (cases ev)
     (auto simp: handleMouseDownOnHandle_def handleMouseUp_def handleMouseMove_def
        dragRect_minSize Let_def split: option.splits)

lemma dragStep_minSize:
  "minSize (canvasRect s) \<Longrightarrow> minSize (canvasRect (dragStep p s ev))"
  using dragStep_rect [of p s ev] by auto

lemma foldl_dragStep_minSize:
  "minSize (canvasRect s) \<Longrightarrow> minSize (canvasRect (foldl (dragStep p) s evs))"
  by (induction evs arbitrary: s) (auto simp: dragStep_minSize)

lemma dragEvents_rect:
  "canvasRect (dragEvents p evs s) = canvasRect s \<or> minSize (canvasRect (dragEvents p evs s))"
  unfolding dragEvents_def
proof (induction evs arbitrary: s)
  case Nil
  then show ?case by simp
next
  case (Cons ev evs)
  show ?case
    using Cons.IH [of "dragStep p s ev"] dragStep_rect [of p s ev]
      foldl_dragStep_minSize [of "dragStep p s ev" p evs]
    by auto
qed

lemma loadedCanvas_eq:
  "loadedCanvas =
     mountedCanvas\<lparr>imageEl := Some scenarioImage,
       imageDrawRect := \<lparr>rx = 0, ry = 50, width = 400, height = 300\<rparr>,
       canvasRect := \<lparr>rx = 0, ry = 50, width = 400, height = 300\<rparr>\<rparr>"
  by (simp add: loadedCanvas_def onload_def redrawCanvas_def mountedCanvas_def
      fitImageToContainer_def scenarioContainer_def scenarioImage_def Let_def)

section \<open>Minimum size under dragging\<close>

text \<open>
  Claim C1. Every drag update produces a rectangle whose width and height are at least
  \<open>2 * HANDLE_SIZE\<close>, whatever the handle, the pointer and the rectangle before.
  Hence a pointer move either leaves the state alone (no drag is active) or leaves a
  rectangle of minimum size, and after any sequence of press, move and release events
  the expansion rectangle is either still the one the sequence started from or of
  minimum size. With \<open>HANDLE_SIZE = 12\<close>: from the 100 by 100 rectangle at the origin,
  dragging \<open>br\<close> to (60, 60) gives the 60 by 60 rectangle at the origin, and dragging
  \<open>br\<close> to (10, 10), directly or after that, gives width 24 and height 24. The same
  scenario holds for the component with its container at the origin.
\<close>

theorem drag_minimum_size:
  "minSize (dragRect h x y prev)
   \<and> (handleMouseMove e s = s \<or> minSize (canvasRect (handleMouseMove e s)))
   \<and> (canvasRect (dragEvents p evs s) = canvasRect s
        \<or> minSize (canvasRect (dragEvents p evs s)))
   \<and> HANDLE_SIZE = 12
   \<and> dragRect ''br'' 60 60 scenarioRect = \<lparr>rx = 0, ry = 0, width = 60, height = 60\<rparr>
   \<and> dragRect ''br'' 10 10 scenarioRect = \<lparr>rx = 0, ry = 0, width = 24, height = 24\<rparr>
   \<and> dragRect ''br'' 10 10 (dragRect ''br'' 60 60 scenarioRect)
       = \<lparr>rx = 0, ry = 0, width = 24, height = 24\<rparr>
   \<and> canvasRect (dragEvents expandProps
          [MouseDownOnHandle ''br'', MouseMove \<lparr>clientX = 60, clientY = 60\<rparr>]
          (mountedCanvas\<lparr>canvasRect := scenarioRect\<rparr>))
       = \<lparr>rx = 0, ry = 0, width = 60, height = 60\<rparr>
   \<and> canvasRect (dragEvents expandProps
          [MouseDownOnHandle ''br'', MouseMove \<lparr>clientX = 60, clientY = 60\<rparr>,
           MouseMove \<lparr>clientX = 10, clientY = 10\<rparr>, MouseUp]
          (mountedCanvas\<lparr>canvasRect := scenarioRect\<rparr>))
       = \<lparr>rx = 0, ry = 0, width = 24, height = 24\<rparr>"
proof -
  have br: "dragRect ''br'' a b \<lparr>rx = 0, ry = 0, width = w, height = h\<rparr>
              = \<lparr>rx = 0, ry = 0, width = max a 24, height = max b 24\<rparr>" for a b w h
    by (simp add: dragRect_def includesChar_def HANDLE_SIZE_def)
  have ev: "canvasRect (dragEvents expandProps (MouseDownOnHandle ''br'' # evs')
              (mountedCanvas\<lparr>canvasRect := scenarioRect\<rparr>))
            = canvasRect (dragEvents expandProps evs'
              (mountedCanvas\<lparr>canvasRect := scenarioRect, isDragging := Some ''br''\<rparr>))" for evs'
    by (simp add: dragEvents_def handleMouseDownOnHandle_def isExpandable_def expandProps_def)
  have mv: "handleMouseMove \<lparr>clientX = a, clientY = b\<rparr>
              (mountedCanvas\<lparr>canvasRect := \<lparr>rx = 0, ry = 0, width = w, height = h\<rparr>,
                 isDragging := Some ''br''\<rparr>)
            = mountedCanvas\<lparr>canvasRect := \<lparr>rx = 0, ry = 0, width = max a 24, height = max b 24\<rparr>,
                 isDragging := Some ''br''\<rparr>" for a b w h
    by (simp add: handleMouseMove_def mountedCanvas_def scenarioContainer_def br)
  show ?thesis
    unfolding ev
    by (simp add: dragRect_minSize handleMouseMove_rect dragEvents_rect HANDLE_SIZE_def)
       (simp add: scenarioRect_def br dragEvents_def mv handleMouseUp_def)
qed

section \<open>Aspect fit is correct\<close>

text \<open>
  Claim C2. For a container with positive width and height and an image with positive
  natural width and height, \<open>fitImageToContainer\<close> returns a rectangle whose
  width to height ratio is the image's (exactly, in real arithmetic), with positive
  sides, lying inside the container and centred in it, with the sides the
  specification gives: the container's width and that width divided by the ratio, or,
  when that height exceeds the container's, the container's height and that height
  times the ratio. An 800 by 600 image in a 400 by 400 container gets the rectangle
  at (0, 50) of width 400 and height 300.
\<close>

theorem fit_aspect_contained_centered:
  assumes "0 < clientWidth c" and "0 < clientHeight c"
    and "0 < naturalWidth img" and "0 < naturalHeight img"
  shows "let r = fitImageToContainer (Some c) img;
             Wc = clientWidth c; Hc = clientHeight c;
             ratio = real (naturalWidth img) / real (naturalHeight img)
         in width r / height r = ratio
            \<and> 0 < width r \<and> 0 < height r
            \<and> 0 \<le> rx r \<and> 0 \<le> ry r \<and> rx r + width r \<le> Wc \<and> ry r + height r \<le> Hc
            \<and> rx r = (Wc - width r) / 2 \<and> ry r = (Hc - height r) / 2
            \<and> width r = (if Wc / ratio > Hc then Hc * ratio else Wc)
            \<and> height r = (if Wc / ratio > Hc then Hc else Wc / ratio)
            \<and> fitImageToContainer (Some scenarioContainer) scenarioImage
                = \<lparr>rx = 0, ry = 50, width = 400, height = 300\<rparr>"
proof -
  define q where "q = real (naturalWidth img) / real (naturalHeight img)"
  define Wc where "Wc = clientWidth c"
  define Hc where "Hc = clientHeight c"
  let ?r = "fitImageToContainer (Some c) img"
  have q: "0 < q" and Wc: "0 < Wc" and Hc: "0 < Hc"
    using assms by (simp_all add: q_def Wc_def Hc_def)
  have w: "width ?r = (if Wc / q > Hc then Hc * q else Wc)"
    and h: "height ?r = (if Wc / q > Hc then Hc else Wc / q)"
    and x: "rx ?r = (Wc - width ?r) / 2"
    and y: "ry ?r = (Hc - height ?r) / 2"
    by (simp_all add: fitImageToContainer_def Let_def q_def Wc_def Hc_def)
  have ratio: "width ?r / height ?r = q"
    using q Wc Hc by (simp add: w h)
  have wpos: "0 < width ?r" and hpos: "0 < height ?r"
    using q Wc Hc by (simp_all add: w h)
  have wle: "width ?r \<le> Wc"
  proof (cases "Wc / q > Hc")
    case True
    then have "Hc * q < Wc" using q by (simp add: pos_less_divide_eq)
    then show ?thesis using True by (simp add: w)
  next
    case False
    then show ?thesis by (simp add: w)
  qed
  have hle: "height ?r \<le> Hc"
    by (simp add: h)
  have scen: "fitImageToContainer (Some scenarioContainer) scenarioImage
                = \<lparr>rx = 0, ry = 50, width = 400, height = 300\<rparr>"
    by (simp add: fitImageToContainer_def scenarioContainer_def scenarioImage_def Let_def)
  have "0 \<le> rx ?r" "0 \<le> ry ?r" "rx ?r + width ?r \<le> Wc" "ry ?r + height ?r \<le> Hc"
    using wle hle unfolding x y by (simp_all add: field_simps)
  with ratio wpos hpos x y w h scen show ?thesis
    unfolding Let_def q_def [symmetric] Wc_def [symmetric] Hc_def [symmetric]
    by (intro conjI) assumption+
qed

theorem fit_aspect_contained_centered_witness:
  "let r = fitImageToContainer (Some scenarioContainer) scenarioImage
   in 0 < clientWidth scenarioContainer \<and> 0 < clientHeight scenarioContainer
      \<and> 0 < naturalWidth scenarioImage \<and> 0 < naturalHeight scenarioImage
      \<and> width r / height r = 800 / 600 \<and> rx r = 0 \<and> ry r = 50
      \<and> rx r + width r \<le> 400 \<and> ry r + height r \<le> 400"
  using fit_aspect_contained_centered [of scenarioContainer scenarioImage]
  by (simp add: scenarioContainer_def scenarioImage_def Let_def)

section \<open>Dragging the left and top edges\<close>



section \<open>Helper lemmas: rounding\<close>

lemma roundTiesEven_err: "\<bar>of_int (roundTiesEven m) - m\<bar> \<le> 1 / 2"
  unfolding roundTiesEven_def Let_def by (auto simp: abs_le_iff)

lemma roundTiesEven_int: "roundTiesEven (of_int k) = k"
  by (simp add: roundTiesEven_def)

lemma log2_floor:
  assumes "2 ^ 52 \<le> \<bar>x\<bar> * 2 ^ a" and "\<bar>x\<bar> * 2 ^ a < 2 ^ 53"
  shows "\<lfloor>log 2 \<bar>x\<bar>\<rfloor> = 52 - int a"
proof -
  have pos: "0 < \<bar>x\<bar>" using assms(1) by (smt (verit) mult_nonneg_nonneg zero_less_power mult_eq_0_iff zero_le_power)
  have "log 2 (\<bar>x\<bar> * 2 ^ a) = log 2 \<bar>x\<bar> + real a"
    using pos by (simp add: log_mult log_nat_power)
  moreover have "52 \<le> log 2 (\<bar>x\<bar> * 2 ^ a)"
    using assms(1) pos by (simp add: le_log_iff powr_realpow)
  moreover have "log 2 (\<bar>x\<bar> * 2 ^ a) < 53"
    using assms(2) pos by (simp add: log_less_iff powr_realpow)
  ultimately have "52 - real a \<le> log 2 \<bar>x\<bar>" "log 2 \<bar>x\<bar> < 53 - real a"
    by linarith+
  then show ?thesis by (intro floor_unique) simp_all
qed

lemma rnd_scale:
  assumes "2 ^ 52 \<le> \<bar>x\<bar> * 2 ^ a" and "\<bar>x\<bar> * 2 ^ a < 2 ^ 53"
  shows "rnd x = of_int (roundTiesEven (x * 2 ^ a)) / 2 ^ a"
proof -
  have x: "x \<noteq> 0" using assms(1) by auto
  have e: "\<lfloor>log 2 \<bar>x\<bar>\<rfloor> - 52 = - int a"
    using log2_floor [OF assms] by simp
  have p: "(2::real) powr - real a = 1 / 2 ^ a"
    by (simp add: powr_minus powr_realpow divide_simps)
  show ?thesis
    using x by (simp add: rnd_def e p Let_def)
qed

lemma rnd_0: "rnd 0 = 0"
  by (simp add: rnd_def)

lemma rnd_err: "\<bar>rnd x - x\<bar> \<le> \<bar>x\<bar> / 2 ^ 53"
proof (cases "x = 0")
  case True
  then show ?thesis by (simp add: rnd_def)
next
  case False
  define e where "e = \<lfloor>log 2 \<bar>x\<bar>\<rfloor> - 52"
  define s :: real where "s = 2 powr of_int e"
  have s: "0 < s" by (simp add: s_def)
  have "2 powr of_int \<lfloor>log 2 \<bar>x\<bar>\<rfloor> \<le> 2 powr log 2 \<bar>x\<bar>"
    by (intro powr_mono) simp_all
  also have "\<dots> = \<bar>x\<bar>" using False by simp
  finally have "2 powr (of_int e + 52) \<le> \<bar>x\<bar>" by (simp add: e_def)
  then have big: "s * 2 ^ 52 \<le> \<bar>x\<bar>"
    by (simp add: s_def powr_add powr_realpow [symmetric])
  have "rnd x - x = s * (of_int (roundTiesEven (x / s)) - x / s)"
    using False s by (simp add: rnd_def e_def s_def Let_def algebra_simps)
  then have "\<bar>rnd x - x\<bar> = s * \<bar>of_int (roundTiesEven (x / s)) - x / s\<bar>"
    using s by (simp add: abs_mult)
  also have "\<dots> \<le> s * (1 / 2)"
    using s roundTiesEven_err [of "x / s"] by (intro mult_left_mono) simp_all
  also have "\<dots> = s * 2 ^ 52 / 2 ^ 53" by simp
  also have "\<dots> \<le> \<bar>x\<bar> / 2 ^ 53"
    using big by (intro divide_right_mono) simp_all
  finally show ?thesis .
qed

section \<open>Helper lemmas: painting\<close>

lemma drawSoftCircle_ok:
  "brushOk p \<Longrightarrow> drawSoftCircle p ctx x y = Inr (ctx @ [stampOf p x y])"
  by (auto simp: drawSoftCircle_def brushOk_def hardnessStop_def stampOf_def Let_def)

lemma paintedCanvas_press:
  "startDrawing paintProps \<lparr>clientX = 100, clientY = 100\<rparr> loadedCanvas = Inr paintedCanvas"
  by (simp add: startDrawing_def isPaintable_def paintProps_def getCoords_def maskContext_def
      drawSoftCircle_def hardnessStop_def paintedCanvas_def loadedCanvas_eq mountedCanvas_def
      scenarioContainer_def Let_def)

lemma startDrawing_frame:
  "startDrawing p e s = Inr s' \<Longrightarrow>
     imageEl s' = imageEl s \<and> context2d s' = context2d s \<and> canvasRect s' = canvasRect s
     \<and> imageDrawRect s' = imageDrawRect s"
  by (auto simp: startDrawing_def Let_def split: if_splits option.splits sum.splits)

lemma draw_frame:
  "draw lib p e s = Some (Inr s') \<Longrightarrow>
     imageEl s' = imageEl s \<and> context2d s' = context2d s \<and> canvasRect s' = canvasRect s
     \<and> imageDrawRect s' = imageDrawRect s"
  by (auto simp: draw_def Let_def split: if_splits option.splits sum.splits)

lemma getFinalExpandedImage_cong:
  assumes "imageEl s' = imageEl s \<and> context2d s' = context2d s \<and> canvasRect s' = canvasRect s
     \<and> imageDrawRect s' = imageDrawRect s"
  shows "getFinalExpandedImage s' = getFinalExpandedImage s"
proof -
  from assms have "imageEl s' = imageEl s" "context2d s' = context2d s"
    "canvasRect s' = canvasRect s" "imageDrawRect s' = imageDrawRect s"
    by simp_all
  then show ?thesis
    unfolding getFinalExpandedImage_def by (simp split: option.splits)
qed

section \<open>The mask-overlay export\<close>

text \<open>
  Claim C4. With an image loaded, both canvases mounted and the image drawn at a
  rectangle of positive width and height, \<open>getCompositeImageWithMask\<close> returns a
  canvas whose width and height are the image's natural width and height, whatever the
  viewport rectangles are. On it the image is drawn at the origin and then, between
  \<open>save\<close> and \<open>restore\<close>, the mask canvas under the scale
  \<open>(naturalWidth / imageDrawRect.width, naturalHeight / imageDrawRect.height)\<close> at the
  offset \<open>(- imageDrawRect.x, - imageDrawRect.y)\<close>. The MIME type is
  \<open>image/jpeg\<close> when \<open>src\<close> is a data URI that starts with
  \<open>data:image/jpeg\<close> and \<open>image/png\<close> otherwise.
\<close>

theorem composite_export_native_size:
  assumes "imageEl s = Some img" and "context2d s"
    and "maskCanvas s = Some m" and "imageCanvas s"
    and "0 < width (imageDrawRect s)" and "0 < height (imageDrawRect s)"
  shows "getCompositeImageWithMask p s =
           Inr \<lparr>payload =
                  \<lparr>canvasWidth = real (naturalWidth img),
                   canvasHeight = real (naturalHeight img),
                   ops = [DrawImage img 0 0, Save,
                          Scale (real (naturalWidth img) / width (imageDrawRect s))
                                (real (naturalHeight img) / height (imageDrawRect s)),
                          DrawMask m (- rx (imageDrawRect s)) (- ry (imageDrawRect s)),
                          Restore]\<rparr>,
                mimeType = (if startsWith (src p) ''data:image/jpeg'' then ''image/jpeg''
                            else ''image/png'')\<rparr>"
  using assms by (simp add: getCompositeImageWithMask_def Let_def)

theorem composite_export_native_size_witness:
  "imageEl paintedCanvas = Some scenarioImage \<and> context2d paintedCanvas
   \<and> maskCanvas paintedCanvas = Some [\<lparr>centerX = 100, centerY = 100, radius = 20,
                             colorStops = [(0, 7 / 10), (1, 7 / 10), (1, 0)]\<rparr>]
   \<and> imageCanvas paintedCanvas
   \<and> 0 < width (imageDrawRect paintedCanvas) \<and> 0 < height (imageDrawRect paintedCanvas)
   \<and> getCompositeImageWithMask paintProps paintedCanvas =
           Inr \<lparr>payload =
                  \<lparr>canvasWidth = 800, canvasHeight = 600,
                   ops = [DrawImage scenarioImage 0 0, Save, Scale 2 2,
                          DrawMask [\<lparr>centerX = 100, centerY = 100, radius = 20,
                             colorStops = [(0, 7 / 10), (1, 7 / 10), (1, 0)]\<rparr>] 0 (- 50),
                          Restore]\<rparr>,
                mimeType = ''image/jpeg''\<rparr>
   \<and> mimeType (projr (getCompositeImageWithMask expandProps paintedCanvas)) = ''image/png''"
proof -
  let ?m = "[\<lparr>centerX = 100, centerY = 100, radius = 20,
               colorStops = [(0, 7 / 10), (1, 7 / 10), (1, 0)]\<rparr>]"
  have hyp: "imageEl paintedCanvas = Some scenarioImage" "context2d paintedCanvas"
    "maskCanvas paintedCanvas = Some ?m" "imageCanvas paintedCanvas"
    "0 < width (imageDrawRect paintedCanvas)" "0 < height (imageDrawRect paintedCanvas)"
    by (simp_all add: paintedCanvas_def loadedCanvas_eq mountedCanvas_def)
  have rect: "imageDrawRect paintedCanvas = \<lparr>rx = 0, ry = 50, width = 400, height = 300\<rparr>"
    by (simp add: paintedCanvas_def loadedCanvas_eq mountedCanvas_def)
  show ?thesis
    using hyp composite_export_native_size [OF hyp, of paintProps]
      composite_export_native_size [OF hyp, of expandProps]
    by (simp add: rect scenarioImage_def paintProps_def expandProps_def startsWith_def)
qed

section \<open>The brush stamp\<close>

lemma gradient_solid:
  assumes "0 \<le> t" and "t < 1" and "t \<le> h" 
  shows "gradientAlpha [(0, a), (h, a), (1, 0)] t = a"
  using assms by (cases "t < h") auto

lemma gradient_fade:
  assumes "h \<le> t" and "t \<le> 1" and "h < 1" and "0 \<le> h"
  shows "gradientAlpha [(0, a), (h, a), (1, 0)] t = a * (1 - t) / (1 - h)"
proof (cases "t < 1")
  case True
  then show ?thesis using assms by (simp add: field_simps)
next
  case False
  then show ?thesis using assms by simp
qed

lemma gradient_end: "0 \<le> h \<Longrightarrow> h \<le> 1 \<Longrightarrow> gradientAlpha [(0, a), (h, a), (1, 0)] 1 = 0"
  by simp

text \<open>
  Claim C7, as the code has it. For a brush of positive size and hardness at most 1,
  \<open>drawSoftCircle\<close> paints one stamp centred at the given point, of radius
  \<open>brushSize / 2\<close>, whose gradient has the solid colour at alpha \<open>opacity\<close> from
  the centre out to \<open>radius * stop\<close> and fades linearly from there to fully
  transparent at \<open>radius\<close>. The stop is \<open>max(0, hardness)\<close>: the hardness is
  clamped to a minimum of 0, and the stop is 0 for every hardness that is 0 or negative.
\<close>

theorem brush_stamp_gradient:
  assumes "0 < brushSize p" and "brushHardness p \<le> 1"
  shows "let r = brushSize p / 2; st = stampOf p x y
         in drawSoftCircle p ctx x y = Inr (ctx @ [st])
            \<and> centre st = (x, y) \<and> radius st = r
            \<and> colorStops st = [(0, brushOpacity p), (hardnessStop p, brushOpacity p), (1, 0)]
            \<and> hardnessStop p = max 0 (brushHardness p)
            \<and> 0 \<le> hardnessStop p \<and> hardnessStop p \<le> 1
            \<and> (0 \<le> d1 \<and> d1 \<le> r * hardnessStop p \<and> d1 < r \<longrightarrow> stampAlpha st d1 = brushOpacity p)
            \<and> (r * hardnessStop p \<le> d2 \<and> d2 \<le> r \<and> hardnessStop p < 1 \<longrightarrow>
                 stampAlpha st d2 = brushOpacity p * (r - d2) / (r - r * hardnessStop p))
            \<and> stampAlpha st r = 0
            \<and> (r < d3 \<longrightarrow> stampAlpha st d3 = 0)"
proof -
  define r where "r = brushSize p / 2"
  define h where "h = hardnessStop p"
  define a where "a = brushOpacity p"
  have r: "0 < r" using assms(1) by (simp add: r_def)
  have h: "0 \<le> h" "h \<le> 1" "h = max 0 (brushHardness p)"
    using assms(2) by (simp_all add: h_def hardnessStop_def)
  have ok: "brushOk p" using assms by (simp add: brushOk_def)
  have st: "radius (stampOf p x y) = r" "colorStops (stampOf p x y) = [(0, a), (h, a), (1, 0)]"
    "centre (stampOf p x y) = (x, y)"
    by (simp_all add: stampOf_def r_def h_def a_def centre_def)
  have alpha: "stampAlpha (stampOf p x y) d
                 = (if 0 \<le> d \<and> d \<le> r then gradientAlpha [(0, a), (h, a), (1, 0)] (d / r) else 0)"
    for d using r by (simp add: stampAlpha_def st)
  have solid: "stampAlpha (stampOf p x y) d1 = a" if "0 \<le> d1" "d1 \<le> r * h" "d1 < r"
  proof -
    have "0 \<le> d1 / r" "d1 / r < 1" "d1 / r \<le> h"
      using that r by (simp_all add: pos_divide_le_eq mult.commute)
    then have "gradientAlpha [(0, a), (h, a), (1, 0)] (d1 / r) = a"
      by (rule gradient_solid)
    then show ?thesis using that by (simp add: alpha)
  qed
  have fade: "stampAlpha (stampOf p x y) d2 = a * (r - d2) / (r - r * h)"
    if "r * h \<le> d2" "d2 \<le> r" "h < 1"
  proof -
    have "0 \<le> r * h" using r h(1) by simp
    then have d2: "0 \<le> d2" using that(1) by linarith
    have "h \<le> d2 / r" "d2 / r \<le> 1"
      using that r by (simp_all add: pos_le_divide_eq mult.commute)
    then have "gradientAlpha [(0, a), (h, a), (1, 0)] (d2 / r) = a * (1 - d2 / r) / (1 - h)"
      using that(3) h(1) by (rule gradient_fade)
    also have "\<dots> = a * (r - d2) / (r - r * h)"
    proof -
      have "1 - d2 / r = (r - d2) / r" "r - r * h = r * (1 - h)"
        using r by (simp_all add: field_simps)
      then show ?thesis using r that(3) by simp
    qed
    finally show ?thesis using that d2 by (simp add: alpha)
  qed
  have edge: "stampAlpha (stampOf p x y) r = 0"
    using r h(1,2) by (simp add: alpha)
  have outside: "stampAlpha (stampOf p x y) d3 = 0" if "r < d3"
    using that by (simp add: alpha)
  show ?thesis
    unfolding Let_def r_def [symmetric] h_def [symmetric] a_def [symmetric]
    using drawSoftCircle_ok [OF ok, of ctx x y] st h solid fade edge outside
    by (simp add: h_def)
qed


theorem brush_stamp_gradient_witness:
  "0 < brushSize softProps \<and> brushHardness softProps \<le> 1
   \<and> (0::real) \<le> 0 \<and> (0::real) \<le> brushSize softProps / 2 * hardnessStop softProps
   \<and> (0::real) < brushSize softProps / 2
   \<and> brushSize softProps / 2 * hardnessStop softProps \<le> 10 \<and> 10 \<le> brushSize softProps / 2
   \<and> hardnessStop softProps < 1 \<and> brushSize softProps / 2 < 25
   \<and> drawSoftCircle softProps [] 100 100 = Inr [stampOf softProps 100 100]
   \<and> stampAlpha (stampOf softProps 100 100) 0 = 7 / 10
   \<and> stampAlpha (stampOf softProps 100 100) 10 = 7 / 20
   \<and> stampAlpha (stampOf softProps 100 100) 20 = 0
   \<and> stampAlpha (stampOf softProps 100 100) 25 = 0"
proof -
  have hyp: "0 < brushSize softProps" "brushHardness softProps \<le> 1"
    by (simp_all add: softProps_def)
  have v: "brushSize softProps = 40" "hardnessStop softProps = 0" "brushOpacity softProps = 7 / 10"
    by (simp_all add: softProps_def hardnessStop_def)
  show ?thesis
    using hyp brush_stamp_gradient [OF hyp, of 100 100 "[]" 0 10 25]
    by (simp add: v Let_def)
qed

text \<open>
  Claim C7 as stated says the stop is strictly above 0 for every hardness. At hardness 0
  the stop is exactly 0: the stamp has two stops at offset 0.
\<close>

theorem hardness_stop_counterexample:
  "brushHardness softProps = 0
   \<and> hardnessStop softProps = 0
   \<and> \<not> 0 < hardnessStop softProps
   \<and> drawSoftCircle softProps [] 100 100
       = Inr [\<lparr>centerX = 100, centerY = 100, radius = 20,
                colorStops = [(0, 7 / 10), (0, 7 / 10), (1, 0)]\<rparr>]"
  by (simp add: softProps_def hardnessStop_def drawSoftCircle_def Let_def)

section \<open>Clearing the mask\<close>

lemma getComposite_Inr:
  "getCompositeImageWithMask p c = Inr ex \<Longrightarrow> context2d c"
  by (auto simp: getCompositeImageWithMask_def Let_def split: option.splits if_splits)

lemma paintPane_props: "canvasProps paintPane = paintProps"
  by (simp add: canvasProps_def paintPane_def paintProps_def)

lemma paintedCanvas_composite:
  "getCompositeImageWithMask paintProps paintedCanvas =
     Inr \<lparr>payload =
            \<lparr>canvasWidth = 800, canvasHeight = 600,
             ops = [DrawImage scenarioImage 0 0, Save, Scale 2 2,
                    DrawMask [\<lparr>centerX = 100, centerY = 100, radius = 20,
                       colorStops = [(0, 7 / 10), (1, 7 / 10), (1, 0)]\<rparr>] 0 (- 50),
                    Restore]\<rparr>,
          mimeType = ''image/jpeg''\<rparr>"
  by (simp add: getCompositeImageWithMask_def paintedCanvas_def loadedCanvas_eq mountedCanvas_def
      scenarioImage_def paintProps_def startsWith_def Let_def)

lemma trim_prompt: "trim (str ''a red ball'') = str ''a red ball''"
  by (simp add: trim_def isWhiteSpace_def str_def)

text \<open>
  Claim C6, as the code has it. A submit-for-edit with a non-blank prompt, an image and a
  mounted canvas with its mask canvas, whose export succeeds and which the remote
  service answers with an image, clears the mask canvas (no stamp is left), empties the
  prompt and makes the answer the pane's image. \<open>handleToggleTool\<close> changes the active tool only: the
  canvas and the stamps on its mask stay as they were.
\<close>

theorem mask_cleared_after_edit_only:
  assumes "trim (prompt s) \<noteq> []" and "image' s = Some i \<and> i \<noteq> []"
    and "canvasRef s = Some c"
    and "getCompositeImageWithMask (canvasProps s) c = Inr ex"
    and "editImage (payload ex) (mimeType ex) (editPrompt (prompt s)) = Inr result"
    and "maskCanvas c = Some m"
  shows "handleEdit editImage s =
           s\<lparr>image' := Some result, prompt := [], isLoading := False,
              error' := None, loadingMessage := ''Applying edits...'',
              canvasRef := Some (c\<lparr>maskCanvas := Some []\<rparr>)\<rparr>
         \<and> maskStamps (c\<lparr>maskCanvas := Some []\<rparr>) = 0
         \<and> handleToggleTool tool s
             = s\<lparr>activeTool' := (if activeTool' s = Some tool then None else Some tool)\<rparr>
         \<and> canvasRef (handleToggleTool tool s) = Some c
         \<and> maskStamps c = length m"
proof -
  have ctx: "context2d c" using assms(4) by (rule getComposite_Inr)
  have clear: "clearMask c = c\<lparr>maskCanvas := Some []\<rparr>"
    using assms(6) ctx by (simp add: clearMask_def)
  have props: "canvasProps (s\<lparr>isLoading := True, loadingMessage := msg, error' := None\<rparr>)
                 = canvasProps s" for msg
    by (simp add: canvasProps_def)
  have "handleEdit editImage s =
           s\<lparr>image' := Some result, prompt := [], isLoading := False,
              error' := None, loadingMessage := ''Applying edits...'',
              canvasRef := Some (c\<lparr>maskCanvas := Some []\<rparr>)\<rparr>"
    using assms(1-5)
    by (simp add: handleEdit_def executeEditAction_def Let_def props clear)
  then show ?thesis
    using assms(3,6) by (simp add: handleToggleTool_def maskStamps_def)
qed


theorem mask_cleared_after_edit_only_witness:
  "trim (prompt paintPane) \<noteq> [] \<and> image' paintPane = Some ''data:image/jpeg;base64,''
   \<and> ''data:image/jpeg;base64,'' \<noteq> [] \<and> canvasRef paintPane = Some paintedCanvas
   \<and> (\<exists>ex. getCompositeImageWithMask (canvasProps paintPane) paintedCanvas = Inr ex
         \<and> answeringService (payload ex) (mimeType ex) (editPrompt (prompt paintPane))
             = Inr ''data:image/png;base64,AAAA'')
   \<and> maskCanvas paintedCanvas
       = Some [\<lparr>centerX = 100, centerY = 100, radius = 20,
                 colorStops = [(0, 7 / 10), (1, 7 / 10), (1, 0)]\<rparr>]
   \<and> maskStamps paintedCanvas = 1
   \<and> handleEdit answeringService paintPane =
         paintPane\<lparr>image' := Some ''data:image/png;base64,AAAA'', prompt := [],
           loadingMessage := ''Applying edits...'',
           canvasRef := Some (paintedCanvas\<lparr>maskCanvas := Some []\<rparr>)\<rparr>
   \<and> maskStamps (paintedCanvas\<lparr>maskCanvas := Some []\<rparr>) = 0"
proof -
  let ?m = "[\<lparr>centerX = 100, centerY = 100, radius = 20,
               colorStops = [(0, 7 / 10), (1, 7 / 10), (1, 0)]\<rparr>]"
  have h1: "trim (prompt paintPane) \<noteq> []"
    by (simp add: paintPane_def trim_prompt) (simp add: str_def)
  have h2: "image' paintPane = Some ''data:image/jpeg;base64,'' \<and> ''data:image/jpeg;base64,'' \<noteq> []"
    and h3: "canvasRef paintPane = Some paintedCanvas"
    by (simp_all add: paintPane_def)
  have h4: "getCompositeImageWithMask (canvasProps paintPane) paintedCanvas
              = Inr (projr (getCompositeImageWithMask paintProps paintedCanvas))"
    by (simp add: paintPane_props paintedCanvas_composite)
  have h5: "answeringService (payload (projr (getCompositeImageWithMask paintProps paintedCanvas)))
              (mimeType (projr (getCompositeImageWithMask paintProps paintedCanvas)))
              (editPrompt (prompt paintPane)) = Inr ''data:image/png;base64,AAAA''"
    by (simp add: answeringService_def)
  have h6: "maskCanvas paintedCanvas = Some ?m"
    by (simp add: paintedCanvas_def)
  have same: "paintPane\<lparr>image' := Some ''data:image/png;base64,AAAA'', prompt := [],
                 isLoading := False, error' := None, loadingMessage := ''Applying edits...'',
                 canvasRef := Some (paintedCanvas\<lparr>maskCanvas := Some []\<rparr>)\<rparr>
              = paintPane\<lparr>image' := Some ''data:image/png;base64,AAAA'', prompt := [],
                 loadingMessage := ''Applying edits...'',
                 canvasRef := Some (paintedCanvas\<lparr>maskCanvas := Some []\<rparr>)\<rparr>"
    by (simp add: paintPane_def)
  show ?thesis
    using mask_cleared_after_edit_only
        [where editImage = answeringService and s = paintPane and tool = expand,
         OF h1 h2 h3 h4 h5 h6] h1 h2 h3 h4 h5 h6
    by (auto simp: same)
qed

text \<open>
  Claim C6 as stated says the mask is cleared when the active tool moves away from the
  paint tool. With one stamp painted, switching from \<open>inpainting\<close> to \<open>expand\<close>,
  or toggling \<open>inpainting\<close> off, leaves the stamp on the mask.
\<close>

theorem tool_switch_keeps_mask_counterexample:
  "activeTool' paintPane = Some inpainting
   \<and> canvasRef paintPane = Some paintedCanvas
   \<and> maskCanvas paintedCanvas
       = Some [\<lparr>centerX = 100, centerY = 100, radius = 20,
                 colorStops = [(0, 7 / 10), (1, 7 / 10), (1, 0)]\<rparr>]
   \<and> stampAlpha \<lparr>centerX = 100, centerY = 100, radius = 20,
                 colorStops = [(0, 7 / 10), (1, 7 / 10), (1, 0)]\<rparr> 0 = 7 / 10
   \<and> activeTool' (handleToggleTool expand paintPane) = Some expand
   \<and> canvasRef (handleToggleTool expand paintPane) = Some paintedCanvas
   \<and> activeTool' (handleToggleTool inpainting paintPane) = None
   \<and> canvasRef (handleToggleTool inpainting paintPane) = Some paintedCanvas
   \<and> maskStamps paintedCanvas = 1"
  by (simp add: handleToggleTool_def paintPane_def paintedCanvas_def maskStamps_def stampAlpha_def)

section \<open>Explicit canvas size\<close>

text \<open>
  Claim C5, as the code has it. \<open>handleSetCanvasSize\<close> ignores an entry whose width
  or height is not positive: the pane's state, \<open>canvasRect\<close> included, stays as it
  was. An entry with positive width and height is accepted whatever its size and sets
  \<open>canvasRect\<close> to it, centred in the container. In neither case does the handler
  touch the pane's error message. A drag update always has minimum size: a smaller
  size is clamped, and the update has no error result.
\<close>

theorem explicit_size_entry:
  "(resizeWidth s \<le> 0 \<or> resizeHeight s \<le> 0 \<longrightarrow> handleSetCanvasSize s = s)
   \<and> (0 < resizeWidth t \<and> 0 < resizeHeight t \<and> canvasRef t = Some c \<and> container c = Some k
        \<longrightarrow> handleSetCanvasSize t =
              t\<lparr>canvasRef := Some (c\<lparr>canvasRect :=
                  \<lparr>rx = (clientWidth k - resizeWidth t) / 2,
                   ry = (clientHeight k - resizeHeight t) / 2,
                   width = resizeWidth t, height = resizeHeight t\<rparr>\<rparr>)\<rparr>)
   \<and> error' (handleSetCanvasSize u) = error' u
   \<and> minSize (dragRect h x y prev)"
  by (auto simp: handleSetCanvasSize_def setExplicitCanvasSize_def Let_def dragRect_minSize
      split: option.splits)

theorem explicit_size_entry_witness:
  "(resizeWidth (resizePane\<lparr>resizeWidth := 0\<rparr>) \<le> 0
      \<or> resizeHeight (resizePane\<lparr>resizeWidth := 0\<rparr>) \<le> 0)
   \<and> handleSetCanvasSize (resizePane\<lparr>resizeWidth := 0\<rparr>) = resizePane\<lparr>resizeWidth := 0\<rparr>
   \<and> 0 < resizeWidth paintPane \<and> 0 < resizeHeight paintPane
   \<and> canvasRef paintPane = Some paintedCanvas \<and> container paintedCanvas = Some scenarioContainer
   \<and> handleSetCanvasSize paintPane =
         paintPane\<lparr>canvasRef := Some (paintedCanvas\<lparr>canvasRect :=
            \<lparr>rx = - 200, ry = - 100, width = 800, height = 600\<rparr>\<rparr>)\<rparr>"
proof -
  have a: "resizeWidth (resizePane\<lparr>resizeWidth := 0\<rparr>) \<le> 0
      \<or> resizeHeight (resizePane\<lparr>resizeWidth := 0\<rparr>) \<le> 0"
    by simp
  have b: "0 < resizeWidth paintPane \<and> 0 < resizeHeight paintPane
      \<and> canvasRef paintPane = Some paintedCanvas
      \<and> container paintedCanvas = Some scenarioContainer"
    by (simp add: paintPane_def paintedCanvas_def loadedCanvas_eq mountedCanvas_def)
  have v: "resizeWidth paintPane = 800" "resizeHeight paintPane = 600"
    by (simp_all add: paintPane_def)
  show ?thesis
    using explicit_size_entry [of "resizePane\<lparr>resizeWidth := 0\<rparr>" paintPane paintedCanvas
        scenarioContainer paintPane "''br''" 0 0 scenarioRect] a b
    by (simp add: v scenarioContainer_def)
qed

text \<open>
  Claim C5 as stated says an entry below \<open>2 * HANDLE_SIZE\<close> is rejected with a
  validation signal and leaves \<open>canvasRect\<close> unchanged. The entry 10 by 10 in a 400
  by 400 container replaces the rectangle at (0, 50) of size 400 by 300 with a 10 by 10
  rectangle at (195, 195), and no error is set.
\<close>

theorem explicit_size_below_minimum_counterexample:
  "resizeWidth resizePane = 10 \<and> resizeHeight resizePane = 10
   \<and> resizeWidth resizePane < 2 * HANDLE_SIZE
   \<and> canvasRef resizePane = Some paintedCanvas
   \<and> canvasRect paintedCanvas = \<lparr>rx = 0, ry = 50, width = 400, height = 300\<rparr>
   \<and> handleSetCanvasSize resizePane =
         resizePane\<lparr>canvasRef := Some (paintedCanvas\<lparr>canvasRect :=
            \<lparr>rx = 195, ry = 195, width = 10, height = 10\<rparr>\<rparr>)\<rparr>
   \<and> error' (handleSetCanvasSize resizePane) = None
   \<and> \<not> minSize \<lparr>rx = 195, ry = 195, width = 10, height = 10\<rparr>"
  by (simp add: handleSetCanvasSize_def setExplicitCanvasSize_def resizePane_def paintPane_def
      paintedCanvas_def loadedCanvas_eq mountedCanvas_def scenarioContainer_def HANDLE_SIZE_def
      minSize_def Let_def)

section \<open>Aspect-ratio presets\<close>

text \<open>
  The roundings that \<open>fitImageToContainer\<close> and \<open>setAspectRatio\<close> perform on the
  two scenarios, each evaluated from the definition of \<open>rnd\<close>.
\<close>

lemma preset43_ratio: "jsDiv 800 600 = 6004799503160661 / 4503599627370496"
  unfolding jsDiv_def by (subst rnd_scale [where a = 52]) (simp_all add: roundTiesEven_def)

lemma preset43_width: "jsMul 230 (6004799503160661 / 4503599627370496) = 2697468526810453 / 8796093022208"
  unfolding jsMul_def by (subst rnd_scale [where a = 44]) (simp_all add: roundTiesEven_def)

lemma preset43_slack: "jsSub 400 (2697468526810453 / 8796093022208) = 820968682072747 / 8796093022208"
  unfolding jsSub_def by (subst rnd_scale [where a = 46]) (simp_all add: roundTiesEven_def)

lemma preset43_x: "jsDiv (820968682072747 / 8796093022208) 2 = 820968682072747 / 17592186044416"
  unfolding jsDiv_def by (subst rnd_scale [where a = 47]) (simp_all add: roundTiesEven_def)

lemma preset43_zero: "jsSub 230 230 = 0"
  by (simp add: jsSub_def rnd_0)

lemma preset43_zero_half: "jsDiv 0 2 = 0"
  by (simp add: jsDiv_def rnd_0)

lemma preset43_target: "jsDiv 4 3 = 6004799503160661 / 4503599627370496"
  unfolding jsDiv_def by (subst rnd_scale [where a = 52]) (simp_all add: roundTiesEven_def)

lemma preset43_imgRatio: "jsDiv (2697468526810453 / 8796093022208) 230 = 6004799503160661 / 4503599627370496"
  unfolding jsDiv_def by (subst rnd_scale [where a = 52]) (simp_all add: roundTiesEven_def)

lemma preset43_newH: "jsDiv (2697468526810453 / 8796093022208) (6004799503160661 / 4503599627370496) = 8092405580431359 / 35184372088832"
  unfolding jsDiv_def by (subst rnd_scale [where a = 45]) (simp_all add: roundTiesEven_def)

lemma preset43_dw: "jsSub (2697468526810453 / 8796093022208) (2697468526810453 / 8796093022208) = 0"
  by (simp add: jsSub_def rnd_0)

lemma preset43_newX: "jsSub (820968682072747 / 17592186044416) 0 = 820968682072747 / 17592186044416"
  unfolding jsSub_def by (subst rnd_scale [where a = 47]) (simp_all add: roundTiesEven_def)

lemma preset43_dh: "jsSub (8092405580431359 / 35184372088832) 230 = - (1 / 35184372088832)"
  unfolding jsSub_def by (subst rnd_scale [where a = 97]) (simp_all add: roundTiesEven_def)

lemma preset43_dh_half: "jsDiv (- (1 / 35184372088832)) 2 = - (1 / 70368744177664)"
  unfolding jsDiv_def by (subst rnd_scale [where a = 98]) (simp_all add: roundTiesEven_def)

lemma preset43_newY: "jsSub 0 (- (1 / 70368744177664)) = 1 / 70368744177664"
  unfolding jsSub_def by (subst rnd_scale [where a = 98]) (simp_all add: roundTiesEven_def)

lemma preset169_target: "jsDiv 16 9 = 2001599834386887 / 1125899906842624"
  unfolding jsDiv_def by (subst rnd_scale [where a = 52]) (simp_all add: roundTiesEven_def)

lemma preset169_imgRatio: "jsDiv 400 300 = 6004799503160661 / 4503599627370496"
  unfolding jsDiv_def by (subst rnd_scale [where a = 52]) (simp_all add: roundTiesEven_def)

lemma preset169_newW: "jsMul 300 (2001599834386887 / 1125899906842624) = 2345624805922133 / 4398046511104"
  unfolding jsMul_def by (subst rnd_scale [where a = 43]) (simp_all add: roundTiesEven_def)

lemma preset169_dw: "jsSub (2345624805922133 / 4398046511104) 400 = 586406201480533 / 4398046511104"
  unfolding jsSub_def by (subst rnd_scale [where a = 45]) (simp_all add: roundTiesEven_def)

lemma preset169_half: "jsDiv (586406201480533 / 4398046511104) 2 = 586406201480533 / 8796093022208"
  unfolding jsDiv_def by (subst rnd_scale [where a = 46]) (simp_all add: roundTiesEven_def)

lemma preset169_newX: "jsSub 0 (586406201480533 / 8796093022208) = - (586406201480533 / 8796093022208)"
  unfolding jsSub_def by (subst rnd_scale [where a = 46]) (simp_all add: roundTiesEven_def)

lemma preset169_dh: "jsSub 300 300 = 0"
  by (simp add: jsSub_def rnd_0)

lemma preset169_newY: "jsSub 50 0 = 50"
  unfolding jsSub_def by (subst rnd_scale [where a = 47]) (simp_all add: roundTiesEven_def)

lemma fittedRect_eq:
  "fittedRect = \<lparr>rx = 820968682072747 / 17592186044416, ry = 0, width = 2697468526810453 / 8796093022208, height = 230\<rparr>"
  by (simp add: fittedRect_def preset43_ratio preset43_width preset43_slack preset43_x preset43_zero preset43_zero_half)

lemma Number_digits:
  "Number ''4'' = Some 4" "Number ''3'' = Some 3" "Number ''16'' = Some 16" "Number ''9'' = Some 9"
  by (simp_all add: Number_def isDigit_def)

text \<open>
  Claim C3 says that the rectangle \<open>setAspectRatio\<close> computes always contains
  \<open>imageDrawRect\<close>. The program does not keep that. An 800 by 600 image in a
  container of 400 by 230 is drawn at height 230 from the top edge 0; on the preset
  \<open>4:3\<close>, which is the image's own ratio, the rounded quotients make the program take
  the branch that keeps the width, and the height it computes is
  229.99999999999997, put at the top edge \<open>1 / 2 ^ 46\<close>: the new rectangle starts
  below the image's top and ends above its bottom. On the scenario of the claim,
  \<open>16:9\<close> for the image drawn at (0, 50) with width 400 and height 300, the program
  keeps height 300, sets the width to 533.3333333333333 and the rectangle contains
  the image.
\<close>

theorem aspect_preset_crops_image:
  "imageEl fittedCanvas = Some scenarioImage
   \<and> imageDrawRect fittedCanvas = \<lparr>rx = 820968682072747 / 17592186044416, ry = 0, width = 2697468526810453 / 8796093022208, height = 230\<rparr>
   \<and> setAspectRatio ''4:3'' fittedCanvas
       = Some (fittedCanvas\<lparr>canvasRect :=
            \<lparr>rx = 820968682072747 / 17592186044416, ry = 1 / 70368744177664, width = 2697468526810453 / 8796093022208, height = 8092405580431359 / 35184372088832\<rparr>\<rparr>)
   \<and> \<not> containsRect \<lparr>rx = 820968682072747 / 17592186044416, ry = 1 / 70368744177664, width = 2697468526810453 / 8796093022208, height = 8092405580431359 / 35184372088832\<rparr>
                      (imageDrawRect fittedCanvas)
   \<and> ry (imageDrawRect fittedCanvas) < 1 / 70368744177664
   \<and> 1 / 70368744177664 + 8092405580431359 / 35184372088832 < ry (imageDrawRect fittedCanvas) + height (imageDrawRect fittedCanvas)
   \<and> (22999999999999997 / 100000000000000 < (8092405580431359 / 35184372088832 :: real)
        \<and> (8092405580431359 / 35184372088832 :: real) < 230)
   \<and> imageDrawRect loadedCanvas = \<lparr>rx = 0, ry = 50, width = 400, height = 300\<rparr>
   \<and> setAspectRatio ''16:9'' loadedCanvas
       = Some (loadedCanvas\<lparr>canvasRect :=
            \<lparr>rx = - (586406201480533 / 8796093022208), ry = 50, width = 2345624805922133 / 4398046511104, height = 300\<rparr>\<rparr>)
   \<and> containsRect \<lparr>rx = - (586406201480533 / 8796093022208), ry = 50, width = 2345624805922133 / 4398046511104, height = 300\<rparr> (imageDrawRect loadedCanvas)"
proof -
  have img: "imageDrawRect fittedCanvas = \<lparr>rx = 820968682072747 / 17592186044416, ry = 0, width = 2697468526810453 / 8796093022208, height = 230\<rparr>"
    "imageEl fittedCanvas = Some scenarioImage"
    by (simp_all add: fittedCanvas_def fittedRect_eq mountedCanvas_def)
  have run: "setAspectRatio ''4:3'' fittedCanvas
       = Some (fittedCanvas\<lparr>canvasRect :=
            \<lparr>rx = 820968682072747 / 17592186044416, ry = 1 / 70368744177664, width = 2697468526810453 / 8796093022208, height = 8092405580431359 / 35184372088832\<rparr>\<rparr>)"
    by (simp add: setAspectRatio_def img Number_digits Let_def preset43_target preset43_imgRatio preset43_newH preset43_dw
        preset43_zero_half preset43_newX preset43_dh preset43_dh_half preset43_newY)
  have img2: "imageDrawRect loadedCanvas = \<lparr>rx = 0, ry = 50, width = 400, height = 300\<rparr>"
    "imageEl loadedCanvas = Some scenarioImage"
    by (simp_all add: loadedCanvas_eq mountedCanvas_def)
  have run2: "setAspectRatio ''16:9'' loadedCanvas
       = Some (loadedCanvas\<lparr>canvasRect :=
            \<lparr>rx = - (586406201480533 / 8796093022208), ry = 50, width = 2345624805922133 / 4398046511104, height = 300\<rparr>\<rparr>)"
    by (simp add: setAspectRatio_def img2 Number_digits Let_def preset169_target preset169_imgRatio preset169_newW
        preset169_dw preset169_half preset169_newX preset169_dh preset43_zero_half preset169_newY)
  show ?thesis
    unfolding run run2 img img2 by (simp add: containsRect_def)
qed

section \<open>Strokes\<close>

subsection \<open>Rounding errors of the loop counter\<close>

text \<open>
  A rounding moves a value of size at most \<open>b\<close> by at most \<open>b / 2 ^ 53\<close>, so a
  counter that a step of at least 1 takes to at most \<open>2 ^ 21\<close> grows by at least a
  half and by at most the step and \<open>1 / 2 ^ 32\<close>.
\<close>

lemma rnd_upper: "0 \<le> x \<Longrightarrow> x \<le> b \<Longrightarrow> rnd x \<le> x + b / 2 ^ 53"
proof -
  assume x: "0 \<le> x" "x \<le> b"
  have "rnd x - x \<le> \<bar>x\<bar> / 2 ^ 53" using rnd_err [of x] by linarith
  also have "\<dots> \<le> b / 2 ^ 53" using x by (simp add: divide_right_mono)
  finally show ?thesis by simp
qed

lemma rnd_lower: "0 \<le> x \<Longrightarrow> x \<le> b \<Longrightarrow> x - b / 2 ^ 53 \<le> rnd x"
proof -
  assume x: "0 \<le> x" "x \<le> b"
  have "x - rnd x \<le> \<bar>x\<bar> / 2 ^ 53" using rnd_err [of x] by linarith
  also have "\<dots> \<le> b / 2 ^ 53" using x by (simp add: divide_right_mono)
  finally show ?thesis by simp
qed


lemma jsAdd_step:
  assumes "0 \<le> i" and "1 \<le> st" and "i + st \<le> 2 ^ 21"
  shows "i + 1 / 2 \<le> jsAdd i st" and "jsAdd i st \<le> i + st + 1 / 2 ^ 32"
proof -
  have nn: "0 \<le> i + st" using assms by simp
  have "i + st - 2 ^ 21 / 2 ^ 53 \<le> rnd (i + st)"
    using nn assms(3) by (rule rnd_lower)
  then show "i + 1 / 2 \<le> jsAdd i st"
    using assms(2) by (simp add: jsAdd_def)
  have "rnd (i + st) \<le> i + st + 2 ^ 21 / 2 ^ 53"
    using nn assms(3) by (rule rnd_upper)
  then show "jsAdd i st \<le> i + st + 1 / 2 ^ 32"
    by (simp add: jsAdd_def)
qed

lemma stepSize_ge1: "1 \<le> stepSize p"
  by (simp add: stepSize_def)

lemma stepSize_le:
  assumes "0 \<le> brushSize p" and "brushSize p \<le> 2 ^ 20"
  shows "stepSize p \<le> 2 ^ 20"
    and "stepSize p \<le> max 1 (brushSize p / 10) + 1 / 2 ^ 33"
proof -
  have a: "0 \<le> brushSize p / 10" "brushSize p / 10 \<le> 2 ^ 20"
    using assms by simp_all
  have r: "rnd (brushSize p / 10) \<le> brushSize p / 10 + 2 ^ 20 / 2 ^ 53"
    using a by (rule rnd_upper)
  then show "stepSize p \<le> max 1 (brushSize p / 10) + 1 / 2 ^ 33"
    by (simp add: stepSize_def jsDiv_def max_def)
  have "brushSize p / 10 + 2 ^ 20 / 2 ^ 53 \<le> 2 ^ 20"
    using assms(2) by simp
  with r show "stepSize p \<le> 2 ^ 20"
    by (simp add: stepSize_def jsDiv_def)
qed

subsection \<open>The loop returns\<close>

text \<open>
  Every round of the loop moves the counter up by more than a constant, so the loop
  returns, with one stamp for every value the counter takes below the distance.
\<close>

lemma draw_loop_accumulates:
  assumes "brushOk p" and "stepSize p \<le> 2 ^ 20" and "d \<le> 2 ^ 20" and "0 \<le> i"
  shows "\<exists>ts. draw_loop lib p lastP angle d i ctx
                 = Some (Inr (ctx @ map (stampAt lib p lastP angle) ts))
              \<and> accumulates i (stepSize p) d ts"
  using assms(4)
proof (induction "nat \<lceil>2 * (d - i)\<rceil>" arbitrary: i ctx rule: less_induct)
  case less
  show ?case
  proof (cases "i < d")
    case False
    then have "draw_loop lib p lastP angle d i ctx = Some (Inr (ctx @ map (stampAt lib p lastP angle) []))"
      by (subst draw_loop.simps) simp
    moreover have "accumulates i (stepSize p) d []" using False by simp
    ultimately show ?thesis by blast
  next
    case True
    define i' where "i' = jsAdd i (stepSize p)"
    have b: "i + stepSize p \<le> 2 ^ 21" using True assms(2,3) by simp
    have step: "i + 1 / 2 \<le> i'" 
      unfolding i'_def using less.prems stepSize_ge1 b by (rule jsAdd_step)
    have dec: "nat \<lceil>2 * (d - i')\<rceil> < nat \<lceil>2 * (d - i)\<rceil>"
    proof -
      have "2 * (d - i') \<le> 2 * (d - i) - 1" using step by simp
      then have "\<lceil>2 * (d - i')\<rceil> \<le> \<lceil>2 * (d - i) - 1\<rceil>" by (rule ceiling_mono)
      then have "\<lceil>2 * (d - i')\<rceil> \<le> \<lceil>2 * (d - i)\<rceil> - 1" by simp
      moreover have "0 < \<lceil>2 * (d - i)\<rceil>" using True by (simp add: ceiling_less_iff)
      ultimately show ?thesis by linarith
    qed
    have nn: "0 \<le> i'" using step less.prems by simp
    let ?st = "stampAt lib p lastP angle i"
    obtain ts where ts: "draw_loop lib p lastP angle d i' (ctx @ [?st])
                 = Some (Inr ((ctx @ [?st]) @ map (stampAt lib p lastP angle) ts))"
        "accumulates i' (stepSize p) d ts"
      using less.hyps [OF dec nn, of "ctx @ [?st]"] by blast
    have "draw_loop lib p lastP angle d i ctx = draw_loop lib p lastP angle d i' (ctx @ [?st])"
      using True drawSoftCircle_ok [OF assms(1)]
      by (subst draw_loop.simps) (simp add: stampAt_def i'_def stepSize_def)
    then have "draw_loop lib p lastP angle d i ctx
                 = Some (Inr (ctx @ map (stampAt lib p lastP angle) (i # ts)))"
      using ts(1) by simp
    moreover have "accumulates i (stepSize p) d (i # ts)"
      using True ts(2) by (simp add: i'_def)
    ultimately show ?thesis by blast
  qed
qed



subsection \<open>Number and spacing of the stamps\<close>













lemma draw_stroke:
  assumes "isDrawing s" and "isPaintable p" and "lastPoint s = Some lastP"
    and "maskContext s = Some ctx" and "brushOk p" and "brushSize p \<le> 2 ^ 20"
    and "mathHypot lib (jsSub (fst (getCoords s e)) (fst lastP))
                       (jsSub (snd (getCoords s e)) (snd lastP)) \<le> 2 ^ 20"
  shows "\<exists>ts. draw lib p e s =
              Some (Inr (s\<lparr>mousePos := getCoords s e,
                     maskCanvas := Some (ctx
                       @ map (stampAt lib p lastP
                                (mathAtan2 lib (jsSub (snd (getCoords s e)) (snd lastP))
                                               (jsSub (fst (getCoords s e)) (fst lastP)))) ts
                       @ [stampOf p (fst (getCoords s e)) (snd (getCoords s e))]),
                     lastPoint := Some (getCoords s e)\<rparr>))
            \<and> accumulates 0 (stepSize p)
                  (mathHypot lib (jsSub (fst (getCoords s e)) (fst lastP))
                                 (jsSub (snd (getCoords s e)) (snd lastP))) ts"
proof -
  define target where "target = getCoords s e"
  define d where "d = mathHypot lib (jsSub (fst target) (fst lastP)) (jsSub (snd target) (snd lastP))"
  define angle where "angle = mathAtan2 lib (jsSub (snd target) (snd lastP)) (jsSub (fst target) (fst lastP))"
  have b0: "0 \<le> brushSize p" using assms(5) by (simp add: brushOk_def)
  have st: "stepSize p \<le> 2 ^ 20" using b0 assms(6) by (rule stepSize_le)
  have d: "d \<le> 2 ^ 20" using assms(7) by (simp add: d_def target_def)
  obtain ts where ts: "draw_loop lib p lastP angle d 0 ctx
                 = Some (Inr (ctx @ map (stampAt lib p lastP angle) ts))"
      "accumulates 0 (stepSize p) d ts"
    using draw_loop_accumulates [OF assms(5) st d, of 0 lib lastP angle ctx] by auto
  have "draw lib p e s =
              Some (Inr (s\<lparr>mousePos := target,
                     maskCanvas := Some (ctx @ map (stampAt lib p lastP angle) ts
                       @ [stampOf p (fst target) (snd target)]),
                     lastPoint := Some target\<rparr>))"
    using assms(1-4) ts(1) drawSoftCircle_ok [OF assms(5)]
    by (simp add: draw_def Let_def target_def [symmetric] d_def [symmetric] angle_def [symmetric])
  with ts(2) show ?thesis
    unfolding target_def d_def angle_def by blast
qed



subsection \<open>The two strokes evaluated\<close>

text \<open>
  A brush of 5 pixels moved from (100, 100) to (106, 100), and a brush of 12 pixels
  moved from (100, 100) to (112, 100), with a correctly rounded library.
\<close>

lemma rnd_1: "rnd 1 = 1"
  by (subst rnd_scale [where a = 52]) (simp_all add: roundTiesEven_def)

lemma rnd_6: "rnd 6 = 6"
  by (subst rnd_scale [where a = 50]) (simp_all add: roundTiesEven_def)


lemma Arg_pos_real: "0 < a \<Longrightarrow> Arg (Complex a 0) = 0"
  by (rule cis_Arg_unique) (simp_all add: sgn_eq complex_eq_iff cmod_def)

lemma exactMath_axis:
  assumes "0 < a"
  shows "mathHypot exactMath a 0 = rnd a" and "mathAtan2 exactMath 0 a = 0"
  using assms by (simp_all add: exactMath_def Arg_pos_real rnd_0)

lemma exactMath_zero: "mathCos exactMath 0 = 1" "mathSin exactMath 0 = 0"
  by (simp_all add: exactMath_def rnd_0 rnd_1)

lemma jsMul_zero: "jsMul 0 b = 0"
  by (simp add: jsMul_def rnd_0)

lemma accumulates_unique:
  "accumulates i st d ts \<Longrightarrow> accumulates i st d ts' \<Longrightarrow> ts = ts'"
proof (induction ts arbitrary: i ts')
  case Nil
  then show ?case by (cases ts') simp_all
next
  case (Cons t ts)
  then show ?case by (cases ts') auto
qed

lemma thin_step: "jsDiv 5 10 = 1 / 2"
  unfolding jsDiv_def by (subst rnd_scale [where a = 53]) (simp_all add: roundTiesEven_def)

lemma thin_dx: "jsSub 106 100 = 6"
  unfolding jsSub_def by (subst rnd_scale [where a = 50]) (simp_all add: roundTiesEven_def)

lemma same_y: "jsSub 100 100 = 0"
  by (simp add: jsSub_def rnd_0)

lemma thin_acc0: "jsAdd 0 1 = 1"
  unfolding jsAdd_def by (subst rnd_scale [where a = 52]) (simp_all add: roundTiesEven_def)

lemma thin_acc1: "jsAdd 1 1 = 2"
  unfolding jsAdd_def by (subst rnd_scale [where a = 51]) (simp_all add: roundTiesEven_def)

lemma thin_acc2: "jsAdd 2 1 = 3"
  unfolding jsAdd_def by (subst rnd_scale [where a = 51]) (simp_all add: roundTiesEven_def)

lemma thin_acc3: "jsAdd 3 1 = 4"
  unfolding jsAdd_def by (subst rnd_scale [where a = 50]) (simp_all add: roundTiesEven_def)

lemma thin_acc4: "jsAdd 4 1 = 5"
  unfolding jsAdd_def by (subst rnd_scale [where a = 50]) (simp_all add: roundTiesEven_def)

lemma thin_acc5: "jsAdd 5 1 = 6"
  unfolding jsAdd_def by (subst rnd_scale [where a = 50]) (simp_all add: roundTiesEven_def)

lemma thin_mul0: "jsMul 1 0 = 0"
  by (simp add: jsMul_def rnd_0)

lemma thin_x0: "jsAdd 100 0 = 100"
  unfolding jsAdd_def by (subst rnd_scale [where a = 46]) (simp_all add: roundTiesEven_def)

lemma thin_mul1: "jsMul 1 1 = 1"
  unfolding jsMul_def by (subst rnd_scale [where a = 52]) (simp_all add: roundTiesEven_def)

lemma thin_x1: "jsAdd 100 1 = 101"
  unfolding jsAdd_def by (subst rnd_scale [where a = 46]) (simp_all add: roundTiesEven_def)

lemma thin_zero1: "jsMul 0 1 = 0"
  by (simp add: jsMul_def rnd_0)

lemma thin_mul2: "jsMul 1 2 = 2"
  unfolding jsMul_def by (subst rnd_scale [where a = 51]) (simp_all add: roundTiesEven_def)

lemma thin_x2: "jsAdd 100 2 = 102"
  unfolding jsAdd_def by (subst rnd_scale [where a = 46]) (simp_all add: roundTiesEven_def)

lemma thin_zero2: "jsMul 0 2 = 0"
  by (simp add: jsMul_def rnd_0)

lemma thin_mul3: "jsMul 1 3 = 3"
  unfolding jsMul_def by (subst rnd_scale [where a = 51]) (simp_all add: roundTiesEven_def)

lemma thin_x3: "jsAdd 100 3 = 103"
  unfolding jsAdd_def by (subst rnd_scale [where a = 46]) (simp_all add: roundTiesEven_def)

lemma thin_zero3: "jsMul 0 3 = 0"
  by (simp add: jsMul_def rnd_0)

lemma thin_mul4: "jsMul 1 4 = 4"
  unfolding jsMul_def by (subst rnd_scale [where a = 50]) (simp_all add: roundTiesEven_def)

lemma thin_x4: "jsAdd 100 4 = 104"
  unfolding jsAdd_def by (subst rnd_scale [where a = 46]) (simp_all add: roundTiesEven_def)

lemma thin_zero4: "jsMul 0 4 = 0"
  by (simp add: jsMul_def rnd_0)

lemma thin_mul5: "jsMul 1 5 = 5"
  unfolding jsMul_def by (subst rnd_scale [where a = 50]) (simp_all add: roundTiesEven_def)

lemma thin_x5: "jsAdd 100 5 = 105"
  unfolding jsAdd_def by (subst rnd_scale [where a = 46]) (simp_all add: roundTiesEven_def)

lemma thin_zero5: "jsMul 0 5 = 0"
  by (simp add: jsMul_def rnd_0)














lemma paintedCanvas_facts:
  "isDrawing paintedCanvas" "lastPoint paintedCanvas = Some (100, 100)"
  "maskContext paintedCanvas = Some [\<lparr>centerX = 100, centerY = 100, radius = 20,
                             colorStops = [(0, 7 / 10), (1, 7 / 10), (1, 0)]\<rparr>]"
  "getCoords paintedCanvas \<lparr>clientX = a, clientY = b\<rparr> = (a, b)"
  by (simp_all add: paintedCanvas_def loadedCanvas_eq mountedCanvas_def maskContext_def
      getCoords_def scenarioContainer_def)

lemma thinProps_facts:
  "isPaintable thinProps" "brushOk thinProps" "stepSize thinProps = 1"
  "brushSize thinProps \<le> 2 ^ 20"
  by (simp_all add: isPaintable_def brushOk_def stepSize_def thinProps_def thin_step)

lemma thin_accumulates: "accumulates 0 1 6 [0, 1, 2, 3, 4, 5]"
  by (simp add: thin_acc0 thin_acc1 thin_acc2 thin_acc3 thin_acc4 thin_acc5)

lemma thin_stamps:
  "map (stampAt exactMath thinProps (100, 100) 0) [0, 1, 2, 3, 4, 5]
     = map (\<lambda>k. stampOf thinProps (100 + k) 100) [0, 1, 2, 3, 4, 5]"
  by (simp add: stampAt_def exactMath_zero
      thin_mul0 thin_mul1 thin_mul2 thin_mul3 thin_mul4 thin_mul5
      thin_x0 thin_x1 thin_x2 thin_x3 thin_x4 thin_x5
      jsMul_zero)

lemma strokedCanvas_stroke:
  "draw exactMath thinProps \<lparr>clientX = 106, clientY = 100\<rparr> paintedCanvas = Some (Inr strokedCanvas)"
proof -
  have d: "mathHypot exactMath (jsSub 106 100) (jsSub 100 100) = 6"
    by (simp add: thin_dx same_y exactMath_axis(1) rnd_6)
  have a: "mathAtan2 exactMath (jsSub 100 100) (jsSub 106 100) = 0"
    by (simp add: thin_dx same_y exactMath_axis(2))
  obtain ts where run: "draw exactMath thinProps \<lparr>clientX = 106, clientY = 100\<rparr> paintedCanvas =
              Some (Inr (paintedCanvas\<lparr>mousePos := (106, 100),
                     maskCanvas := Some ([\<lparr>centerX = 100, centerY = 100, radius = 20,
                             colorStops = [(0, 7 / 10), (1, 7 / 10), (1, 0)]\<rparr>]
                       @ map (stampAt exactMath thinProps (100, 100) 0) ts
                       @ [stampOf thinProps 106 100]),
                     lastPoint := Some (106, 100)\<rparr>))"
      and acc: "accumulates 0 1 6 ts"
    using draw_stroke [OF paintedCanvas_facts(1) thinProps_facts(1) paintedCanvas_facts(2,3)
        thinProps_facts(2,4), of exactMath "\<lparr>clientX = 106, clientY = 100\<rparr>"]
    by (auto simp: paintedCanvas_facts(4) d a thinProps_facts(3))
  have "ts = [0, 1, 2, 3, 4, 5]"
    using acc thin_accumulates by (rule accumulates_unique)
  then show ?thesis
    using run by (simp only: thin_stamps strokedCanvas_def) simp
qed












section \<open>The expanded export\<close>

text \<open>
  Claim C10. With an image loaded, \<open>getFinalExpandedImage\<close> returns a canvas of the
  size of \<open>canvasRect\<close> on which a single operation is drawn: the source image at
  \<open>(imageDrawRect.x - canvasRect.x, imageDrawRect.y - canvasRect.y)\<close> with the size of
  \<open>imageDrawRect\<close>. The MIME type is always \<open>image/png\<close>. The mask canvas plays
  no part: the export is the same for every content of the mask canvas, and the same
  after a press of the brush and after a stroke as before them.
\<close>

theorem expanded_export_without_mask:
  assumes "imageEl s = Some img" and "context2d s"
  shows "getFinalExpandedImage s =
           Inr \<lparr>payload =
                  \<lparr>canvasWidth = width (canvasRect s), canvasHeight = height (canvasRect s),
                   ops = [DrawImageSized img
                            (rx (imageDrawRect s) - rx (canvasRect s))
                            (ry (imageDrawRect s) - ry (canvasRect s))
                            (width (imageDrawRect s)) (height (imageDrawRect s))]\<rparr>,
                mimeType = ''image/png''\<rparr>
         \<and> getFinalExpandedImage (s\<lparr>maskCanvas := mc\<rparr>) = getFinalExpandedImage s
         \<and> (startDrawing p e s = Inr s1 \<longrightarrow> getFinalExpandedImage s1 = getFinalExpandedImage s)
         \<and> (startDrawing p e s = Inr s1 \<and> draw lib p' e' s1 = Some (Inr s2)
              \<longrightarrow> getFinalExpandedImage s2 = getFinalExpandedImage s)"
proof -
  have "getFinalExpandedImage s1 = getFinalExpandedImage s" if "startDrawing p e s = Inr s1"
    using startDrawing_frame [OF that] by (rule getFinalExpandedImage_cong)
  moreover have "getFinalExpandedImage s2 = getFinalExpandedImage s1"
    if "draw lib p' e' s1 = Some (Inr s2)"
    using draw_frame [OF that] by (rule getFinalExpandedImage_cong)
  ultimately show ?thesis
    using assms by (auto simp: getFinalExpandedImage_def Let_def)
qed


theorem expanded_export_without_mask_witness:
  "imageEl loadedCanvas = Some scenarioImage \<and> context2d loadedCanvas
   \<and> startDrawing paintProps \<lparr>clientX = 100, clientY = 100\<rparr> loadedCanvas = Inr paintedCanvas
   \<and> draw exactMath thinProps \<lparr>clientX = 106, clientY = 100\<rparr> paintedCanvas
       = Some (Inr strokedCanvas)
   \<and> maskStamps loadedCanvas = 0 \<and> maskStamps strokedCanvas = 8
   \<and> getFinalExpandedImage strokedCanvas =
         Inr \<lparr>payload = \<lparr>canvasWidth = 400, canvasHeight = 300,
                           ops = [DrawImageSized scenarioImage 0 0 400 300]\<rparr>,
              mimeType = ''image/png''\<rparr>"
proof -
  have hyp: "imageEl loadedCanvas = Some scenarioImage" "context2d loadedCanvas"
    by (simp_all add: loadedCanvas_eq mountedCanvas_def)
  have n: "maskStamps loadedCanvas = 0" "maskStamps strokedCanvas = 8"
    by (simp_all add: maskStamps_def strokedCanvas_def paintedCanvas_def loadedCanvas_eq
        mountedCanvas_def)
  have rects: "canvasRect loadedCanvas = \<lparr>rx = 0, ry = 50, width = 400, height = 300\<rparr>"
    "imageDrawRect loadedCanvas = \<lparr>rx = 0, ry = 50, width = 400, height = 300\<rparr>"
    by (simp_all add: loadedCanvas_eq mountedCanvas_def)
  show ?thesis
    using expanded_export_without_mask [OF hyp, of "maskCanvas loadedCanvas" paintProps
        "\<lparr>clientX = 100, clientY = 100\<rparr>" paintedCanvas exactMath thinProps
        "\<lparr>clientX = 106, clientY = 100\<rparr>" strokedCanvas]
      hyp n paintedCanvas_press strokedCanvas_stroke
    by (simp add: rects)
qed

end
